theory Spec2Isabelle
  imports Main
begin

section \<open>Go strings: bytes and runes\<close>

text \<open>
  A Go string is a sequence of bytes, here a \<^typ>\<open>string\<close> (a list of 8-bit characters).
  The library functions the parser calls (\<open>utf8\<close>, \<open>strings\<close>, \<open>regexp\<close>) read such a
  string rune by rune, as \<open>utf8.DecodeRuneInString\<close> does: a rune is a code point and the
  number of bytes it was read from, and a byte that starts no well-formed sequence is
  read as \<open>(RuneError, 1)\<close>.
\<close>

definition RuneError :: nat where
  "RuneError = 65533"

definition byte :: "char \<Rightarrow> nat" where
  "byte c = of_char c"

definition locb :: "char \<Rightarrow> bool" where
  "locb c = (128 \<le> byte c \<and> byte c \<le> 191)"

text \<open>The sequences of two to four bytes, given the value of the first byte.\<close>

definition decode_multi :: "nat \<Rightarrow> string \<Rightarrow> nat \<times> nat" where
  "decode_multi s0 cs =
     (if s0 < 194 \<or> 244 < s0 then (RuneError, 1)
      else (case cs of
          [] \<Rightarrow> (RuneError, 1)
        | c1 # cs1 \<Rightarrow>
           (let s1 = byte c1;
                lo = (if s0 = 224 then 160 else if s0 = 240 then 144 else 128);
                hi = (if s0 = 237 then 159 else if s0 = 244 then 143 else 191) in
            if s0 < 224 then
              (if s1 < 128 \<or> 191 < s1 then (RuneError, 1)
               else ((s0 mod 32) * 64 + s1 mod 64, 2))
            else if s0 < 240 then
              (case cs1 of
                 [] \<Rightarrow> (RuneError, 1)
               | c2 # cs2 \<Rightarrow>
                  if s1 < lo \<or> hi < s1 then (RuneError, 1)
                  else if \<not> locb c2 then (RuneError, 1)
                  else ((s0 mod 16) * 4096 + (s1 mod 64) * 64 + byte c2 mod 64, 3))
            else
              (case cs1 of
                 c2 # c3 # cs3 \<Rightarrow>
                  if s1 < lo \<or> hi < s1 then (RuneError, 1)
                  else if \<not> locb c2 then (RuneError, 1)
                  else if \<not> locb c3 then (RuneError, 1)
                  else ((s0 mod 8) * 262144 + (s1 mod 64) * 4096
                          + (byte c2 mod 64) * 64 + byte c3 mod 64, 4)
               | _ \<Rightarrow> (RuneError, 1)))))"

text \<open>
  The string cut into its runes, each with the bytes it was read from: a byte below 128
  is a rune of its own, any other byte starts a longer sequence or is an encoding error
  of width 1.
\<close>

function runes :: "string \<Rightarrow> (nat \<times> string) list" where
  "runes [] = []"
| "runes (c # cs) =
     (if byte c < 128 then (byte c, [c]) # runes cs
      else (fst (decode_multi (byte c) cs), c # take (snd (decode_multi (byte c) cs) - 1) cs)
             # runes (drop (snd (decode_multi (byte c) cs) - 1) cs))"
  by pat_completeness auto
termination
  by (relation "measure length") simp_all

text \<open>\<open>utf8.ValidString\<close>: no rune of the string is an encoding error.\<close>

definition ValidString :: "string \<Rightarrow> bool" where
  "ValidString s = list_all (\<lambda>(r, bs). \<not> (r = RuneError \<and> length bs = 1)) (runes s)"

text \<open>\<open>utf8.AppendRune\<close>: surrogates and values beyond U+10FFFF are written as U+FFFD.\<close>

definition EncodeRune :: "nat \<Rightarrow> string" where
  "EncodeRune r =
     (if r \<le> 127 then [char_of r]
      else if r \<le> 2047 then [char_of (192 + r div 64), char_of (128 + r mod 64)]
      else if 1114111 < r \<or> (55296 \<le> r \<and> r \<le> 57343) then [char_of (239::nat), char_of (191::nat), char_of (189::nat)]
      else if r \<le> 65535 then
        [char_of (224 + r div 4096), char_of (128 + (r div 64) mod 64), char_of (128 + r mod 64)]
      else
        [char_of (240 + r div 262144), char_of (128 + (r div 4096) mod 64),
         char_of (128 + (r div 64) mod 64), char_of (128 + r mod 64)])"

text \<open>\<open>unicode.IsSpace\<close>: the code points with the White_Space property.\<close>

definition IsSpace :: "nat \<Rightarrow> bool" where
  "IsSpace r =
     ((9 \<le> r \<and> r \<le> 13) \<or> r = 32 \<or> r = 133 \<or> r = 160 \<or> r = 5760
      \<or> (8192 \<le> r \<and> r \<le> 8202) \<or> r = 8232 \<or> r = 8233 \<or> r = 8239 \<or> r = 8287
      \<or> r = 12288)"

section \<open>The functions of package \<open>strings\<close> that the parser calls\<close>

fun fields_from :: "(nat \<times> string) list \<Rightarrow> string \<Rightarrow> string list" where
  "fields_from [] cur = (if cur = [] then [] else [cur])"
| "fields_from ((r, bs) # rs) cur =
     (if IsSpace r then (if cur = [] then fields_from rs [] else cur # fields_from rs [])
      else fields_from rs (cur @ bs))"

text \<open>\<open>strings.Fields\<close>: the maximal runs of runes that are not white space.\<close>

definition Fields :: "string \<Rightarrow> string list" where
  "Fields s = fields_from (runes s) []"

text \<open>\<open>strings.TrimSpace\<close>: leading and trailing white-space runes removed.\<close>

definition TrimSpace :: "string \<Rightarrow> string" where
  "TrimSpace s =
     concat (map snd (rev (dropWhile (\<lambda>(r, bs). IsSpace r)
       (rev (dropWhile (\<lambda>(r, bs). IsSpace r) (runes s))))))"

fun Join :: "string list \<Rightarrow> string \<Rightarrow> string" where
  "Join [] sep = []"
| "Join [x] sep = x"
| "Join (x # y # ys) sep = x @ sep @ Join (y # ys) sep"

text \<open>\<open>strings.Split\<close> for a separator of one byte (the parser only splits on \<open>","\<close>).\<close>

fun Split :: "string \<Rightarrow> char \<Rightarrow> string list" where
  "Split [] sep = [[]]"
| "Split (c # cs) sep =
     (if c = sep then [] # Split cs sep
      else (case Split cs sep of [] \<Rightarrow> [[c]] | p # ps \<Rightarrow> (c # p) # ps))"

definition HasSuffix :: "string \<Rightarrow> string \<Rightarrow> bool" where
  "HasSuffix s suffix =
     (length suffix \<le> length s \<and> drop (length s - length suffix) s = suffix)"

definition TrimSuffix :: "string \<Rightarrow> string \<Rightarrow> string" where
  "TrimSuffix s suffix =
     (if HasSuffix s suffix then take (length s - length suffix) s else s)"

text \<open>\<open>strings.Trim\<close> for a cutset of ASCII bytes.\<close>

definition Trim :: "string \<Rightarrow> string \<Rightarrow> string" where
  "Trim s cutset =
     rev (dropWhile (\<lambda>c. c \<in> set cutset) (rev (dropWhile (\<lambda>c. c \<in> set cutset) s)))"

definition HasPrefix :: "string \<Rightarrow> string \<Rightarrow> bool" where
  "HasPrefix s p = (take (length p) s = p)"

text \<open>\<open>strings.Replace(s, old, new, 1)\<close>: the first occurrence of \<open>old\<close> replaced.\<close>

fun Replace1 :: "string \<Rightarrow> string \<Rightarrow> string \<Rightarrow> string" where
  "Replace1 [] old new = (if old = [] then new else [])"
| "Replace1 (c # cs) old new =
     (if HasPrefix (c # cs) old then new @ drop (length old) (c # cs)
      else c # Replace1 cs old new)"

text \<open>\<open>strings.ReplaceAll\<close> for an \<open>old\<close> of one byte.\<close>

definition ReplaceAll :: "string \<Rightarrow> char \<Rightarrow> string \<Rightarrow> string" where
  "ReplaceAll s old new = concat (map (\<lambda>c. if c = old then new else [c]) s)"

text \<open>
  \<open>strings.ToUpper\<close> and \<open>strings.ToLower\<close>. A string of ASCII bytes is mapped byte by
  byte. Any other string goes through \<open>strings.Map\<close>: each rune is mapped and written
  back in UTF-8, so a byte that is an encoding error comes out as U+FFFD. Above 127 the
  case mapping is the Unicode table of the Go runtime, a parameter here.
\<close>

definition upper_ascii :: "nat \<Rightarrow> nat" where
  "upper_ascii r = (if 97 \<le> r \<and> r \<le> 122 then r - 32 else r)"

definition lower_ascii :: "nat \<Rightarrow> nat" where
  "lower_ascii r = (if 65 \<le> r \<and> r \<le> 90 then r + 32 else r)"

definition Map_runes :: "(nat \<Rightarrow> nat) \<Rightarrow> string \<Rightarrow> string" where
  "Map_runes mapping s = concat (map (\<lambda>(r, bs). EncodeRune (mapping r)) (runes s))"

definition ToUpper :: "(nat \<Rightarrow> nat) \<Rightarrow> string \<Rightarrow> string" where
  "ToUpper tbl s =
     (if list_all (\<lambda>c. byte c < 128) s then map (\<lambda>c. char_of (upper_ascii (byte c))) s
      else Map_runes (\<lambda>r. if r \<le> 127 then upper_ascii r else tbl r) s)"

definition ToLower :: "(nat \<Rightarrow> nat) \<Rightarrow> string \<Rightarrow> string" where
  "ToLower tbl s =
     (if list_all (\<lambda>c. byte c < 128) s then map (\<lambda>c. char_of (lower_ascii (byte c))) s
      else Map_runes (\<lambda>r. if r \<le> 127 then lower_ascii r else tbl r) s)"

section \<open>Package \<open>regexp\<close>\<close>

text \<open>
  The patterns of the parser use literals, character classes, bounded and unbounded
  repetition of a class, alternation, capture groups, \<open>^\<close> and \<open>\b\<close>. \<open>rx\<close> is that
  fragment of the syntax. Go's \<open>regexp\<close> returns the match a backtracking search finds
  first (leftmost, and among those the one preferred by the order of the alternatives and
  the greediness of the repetitions); \<open>rmatch\<close> is that search, written with a
  continuation for what follows the current sub-pattern. A match state holds the rune
  before the position (none at the start of the text), the rest of the text and the
  text of each capture group.
\<close>

datatype rx =
    Eps
  | Cls "nat \<Rightarrow> bool"
  | Seq rx rx
  | Alt rx rx
  | Rep "nat \<Rightarrow> bool" nat "nat option"
  | Grp nat rx
  | Bol
  | WordB

type_synonym rune = "nat \<times> string"

type_synonym mstate = "nat option \<times> rune list \<times> (nat \<Rightarrow> string)"

definition text_of :: "rune list \<Rightarrow> string" where
  "text_of rs = concat (map snd rs)"

text \<open>\<open>\b\<close> is the ASCII word boundary, also under \<open>(?i)\<close>.\<close>

definition IsWordChar :: "nat \<Rightarrow> bool" where
  "IsWordChar r = ((48 \<le> r \<and> r \<le> 57) \<or> (65 \<le> r \<and> r \<le> 90) \<or> (97 \<le> r \<and> r \<le> 122) \<or> r = 95)"

definition word_before :: "nat option \<Rightarrow> bool" where
  "word_before pv = (case pv of None \<Rightarrow> False | Some r \<Rightarrow> IsWordChar r)"

definition word_after :: "rune list \<Rightarrow> bool" where
  "word_after s = (case s of [] \<Rightarrow> False | (r, bs) # rs \<Rightarrow> IsWordChar r)"

text \<open>Greedy repetition of a class, between \<open>lo\<close> and \<open>hi\<close> times (no \<open>hi\<close>: unbounded).\<close>

fun rep :: "(nat \<Rightarrow> bool) \<Rightarrow> nat \<Rightarrow> nat option \<Rightarrow> mstate \<Rightarrow> (mstate \<Rightarrow> 'a option) \<Rightarrow> 'a option" where
  "rep p lo hi (pv, [], cs) k = (if lo = 0 then k (pv, [], cs) else None)"
| "rep p lo hi (pv, (r, bs) # rs, cs) k =
     (if hi \<noteq> Some 0 \<and> p r then
        (case rep p (lo - 1) (map_option (\<lambda>h. h - 1) hi) (Some r, rs, cs) k of
           Some res \<Rightarrow> Some res
         | None \<Rightarrow> if lo = 0 then k (pv, (r, bs) # rs, cs) else None)
      else if lo = 0 then k (pv, (r, bs) # rs, cs) else None)"

fun rmatch :: "rx \<Rightarrow> mstate \<Rightarrow> (mstate \<Rightarrow> 'a option) \<Rightarrow> 'a option" where
  "rmatch Eps st k = k st"
| "rmatch (Cls p) (pv, [], cs) k = None"
| "rmatch (Cls p) (pv, (r, bs) # rs, cs) k = (if p r then k (Some r, rs, cs) else None)"
| "rmatch (Seq a b) st k = rmatch a st (\<lambda>st'. rmatch b st' k)"
| "rmatch (Alt a b) st k =
     (case rmatch a st k of Some res \<Rightarrow> Some res | None \<Rightarrow> rmatch b st k)"
| "rmatch (Rep p lo hi) st k = rep p lo hi st k"
| "rmatch (Grp n a) (pv, s, cs) k =
     rmatch a (pv, s, cs)
       (\<lambda>(pv', s', cs'). k (pv', s', cs'(n := text_of (take (length s - length s') s))))"
| "rmatch Bol (pv, s, cs) k = (if pv = None then k (pv, s, cs) else None)"
| "rmatch WordB (pv, s, cs) k =
     (if word_before pv \<noteq> word_after s then k (pv, s, cs) else None)"

text \<open>
  The unanchored search: the first position, from the left, at which the pattern matches.
  The result is the runes in front of the match, those of the match, and the state after
  it.
\<close>

fun search :: "rx \<Rightarrow> nat option \<Rightarrow> rune list \<Rightarrow> rune list \<Rightarrow> (rune list \<times> rune list \<times> mstate) option" where
  "search re pv s front =
     (case rmatch re (pv, s, \<lambda>n. []) Some of
        Some (pv', s', cs) \<Rightarrow> Some (front, take (length s - length s') s, (pv', s', cs))
      | None \<Rightarrow>
         (case s of
            [] \<Rightarrow> None
          | (r, bs) # rs \<Rightarrow> search re (Some r) rs (front @ [(r, bs)])))"

declare search.simps [simp del]

lemma search_rest_shorter:
  "search re pv s front = Some (b, m, (pv', s', cs)) \<Longrightarrow> m \<noteq> [] \<Longrightarrow> length s' < length s"
proof (induction re pv s front rule: search.induct)
  case (1 re pv s front)
  show ?case
  proof (cases "rmatch re (pv, s, \<lambda>n. []) Some")
    case None
    with "1.prems" obtain r bs rs where s: "s = (r, bs) # rs"
      by (subst (asm) search.simps) (auto split: list.splits)
    with None "1.prems" have
      "search re (Some r) rs (front @ [(r, bs)]) = Some (b, m, (pv', s', cs))"
      by (subst (asm) search.simps) simp
    with "1.IH" [OF None s refl] "1.prems"(2)
    have "length s' < length rs" by blast
    with s show ?thesis by simp
  next
    case (Some res)
    with "1.prems" show ?thesis
      by (subst (asm) search.simps) (auto split: prod.splits)
  qed
qed

text \<open>A compiled pattern: the program and the numbers of its capture groups.\<close>

type_synonym regexp = "rx \<times> nat list"

text \<open>\<open>MatchString\<close>: does the pattern match anywhere in the string?\<close>

definition MatchString :: "regexp \<Rightarrow> string \<Rightarrow> bool" where
  "MatchString re s = (search (fst re) None (runes s) [] \<noteq> None)"

text \<open>
  \<open>FindStringSubmatch\<close>: \<open>None\<close> is the nil slice of no match; otherwise the match and
  the text of each group, empty for a group that took no part in the match.
\<close>

definition FindStringSubmatch :: "regexp \<Rightarrow> string \<Rightarrow> string list option" where
  "FindStringSubmatch re s =
     (case search (fst re) None (runes s) [] of
        None \<Rightarrow> None
      | Some (front, m, (pv, rest, cs)) \<Rightarrow> Some (text_of m # map cs (snd re)))"

text \<open>
  \<open>ReplaceAllString\<close> with a replacement free of \<open>$\<close>: every match, from left to right
  and without overlap, is replaced. None of the parser's patterns matches the empty
  string; on an empty match the scan stops here.
\<close>

function replace_from :: "rx \<Rightarrow> nat option \<Rightarrow> rune list \<Rightarrow> string \<Rightarrow> string" where
  "replace_from re pv s repl =
     (case search re pv s [] of
        None \<Rightarrow> text_of s
      | Some (front, m, (pv', rest, cs)) \<Rightarrow>
          if m = [] then text_of s else text_of front @ repl @ replace_from re pv' rest repl)"
  by pat_completeness auto
termination
proof (relation "measure (\<lambda>(re, pv, s, repl). length s)")
  show "wf (measure (\<lambda>(re, pv, s, repl). length s))" by simp
next
  fix re :: rx and pv pv' :: "nat option" and s front m rest :: "rune list" and repl :: string
    and x2 :: "rune list \<times> rune list \<times> mstate" and y :: "rune list \<times> mstate" and z :: mstate
    and w :: "rune list \<times> (nat \<Rightarrow> string)" and cs :: "nat \<Rightarrow> string"
  assume "search re pv s [] = Some x2" "(front, y) = x2" "(m, z) = y" "(pv', w) = z"
    "(rest, cs) = w" "m \<noteq> []"
  then have "search re pv s [] = Some (front, m, (pv', rest, cs))" by simp
  from search_rest_shorter [OF this \<open>m \<noteq> []\<close>]
  show "((re, pv', rest, repl), (re, pv, s, repl)) \<in> measure (\<lambda>(re, pv, s, repl). length s)"
    by simp
qed

declare replace_from.simps [simp del]

definition ReplaceAllString :: "regexp \<Rightarrow> string \<Rightarrow> string \<Rightarrow> string" where
  "ReplaceAllString re src repl = replace_from (fst re) None (runes src) repl"

section \<open>The patterns of the parser (\<open>parser.go\<close>, \<open>init\<close>)\<close>

text \<open>
  Every pattern is compiled with \<open>(?i)\<close>. Go folds case by Unicode simple folding, so a
  class or literal holding \<open>s\<close> also matches U+017F and one holding \<open>k\<close> also matches U+212A;
  this reaches \<open>\w\<close> and \<open>\W\<close> too. \<open>\d\<close> and \<open>\s\<close> are ASCII.
\<close>

definition cls_digit :: "nat \<Rightarrow> bool" where
  "cls_digit r = (48 \<le> r \<and> r \<le> 57)"

definition cls_letter :: "nat \<Rightarrow> bool" where
  "cls_letter r = ((65 \<le> r \<and> r \<le> 90) \<or> (97 \<le> r \<and> r \<le> 122) \<or> r = 383 \<or> r = 8490)"

definition cls_word :: "nat \<Rightarrow> bool" where
  "cls_word r = (cls_digit r \<or> cls_letter r \<or> r = 95)"

definition cls_not_word :: "nat \<Rightarrow> bool" where
  "cls_not_word r = (\<not> cls_word r)"

definition cls_not_word_hash :: "nat \<Rightarrow> bool" where
  "cls_not_word_hash r = (\<not> (cls_word r \<or> r = 35))"

definition cls_space :: "nat \<Rightarrow> bool" where
  "cls_space r = (r = 9 \<or> r = 10 \<or> r = 12 \<or> r = 13 \<or> r = 32)"

definition cls_hyphen :: "nat \<Rightarrow> bool" where
  "cls_hyphen r = (r = 45)"

definition cls_hyphen_space :: "nat \<Rightarrow> bool" where
  "cls_hyphen_space r = (r = 45 \<or> cls_space r)"

definition cls_alnum_hyphen :: "nat \<Rightarrow> bool" where
  "cls_alnum_hyphen r = (cls_letter r \<or> cls_digit r \<or> r = 45)"

definition cls_nsew :: "nat \<Rightarrow> bool" where
  "cls_nsew r = (r = 78 \<or> r = 110 \<or> r = 83 \<or> r = 115 \<or> r = 383 \<or> r = 69 \<or> r = 101 \<or> r = 87 \<or> r = 119)"

text \<open>One character of a literal, given in lower case.\<close>

definition ch :: "nat \<Rightarrow> nat \<Rightarrow> bool" where
  "ch c r = (lower_ascii r = c \<or> (c = 115 \<and> r = 383) \<or> (c = 107 \<and> r = 8490))"

fun lit :: "string \<Rightarrow> rx" where
  "lit [] = Eps"
| "lit (c # cs) = Seq (Cls (ch (byte c))) (lit cs)"

fun seqs :: "rx list \<Rightarrow> rx" where
  "seqs [] = Eps"
| "seqs [a] = a"
| "seqs (a # b # bs) = Seq a (seqs (b # bs))"

fun alts :: "rx list \<Rightarrow> rx" where
  "alts [] = Eps"
| "alts [a] = a"
| "alts (a # b # bs) = Alt a (alts (b # bs))"

definition opt :: "rx \<Rightarrow> rx" where
  "opt a = Alt a Eps"

text \<open>\<^verbatim>\<open>(?i)^[^\w#]*(\d+[\-]?\d*|[NSEW]\d{1,3}[NSEW]\d{1,6})\b\<close>\<close>

definition patterns_number :: regexp where
  "patterns_number =
     (seqs [Bol, Rep cls_not_word_hash 0 None,
        Grp 1 (Alt (seqs [Rep cls_digit 1 None, Rep cls_hyphen 0 (Some 1), Rep cls_digit 0 None])
                   (seqs [Cls cls_nsew, Rep cls_digit 1 (Some 3), Cls cls_nsew, Rep cls_digit 1 (Some 6)])),
        WordB], [1])"

text \<open>\<^verbatim>\<open>(?i)\b(\d{5})(?:[-\s]?(\d{4}))?\b\<close>\<close>

definition patterns_zip :: regexp where
  "patterns_zip =
     (seqs [WordB, Grp 1 (Rep cls_digit 5 (Some 5)),
        opt (Seq (Rep cls_hyphen_space 0 (Some 1)) (Grp 2 (Rep cls_digit 4 (Some 4)))),
        WordB], [1, 2])"

text \<open>\<^verbatim>\<open>(?i)\b([A-Z]{2})\b\<close>\<close>

definition patterns_state :: regexp where
  "patterns_state = (seqs [WordB, Grp 1 (Rep cls_letter 2 (Some 2)), WordB], [1])"

text \<open>\<^verbatim>\<open>(?i)(?:\b(apt|apartment|suite|ste|unit|#|room|rm|floor|fl|building|bldg)\W*([a-z0-9\-]+)|(\bbasement\b|\bfront\b|\brear\b))\<close>\<close>

definition patterns_secUnit :: regexp where
  "patterns_secUnit =
     (Alt (seqs [WordB,
             Grp 1 (alts [lit ''apt'', lit ''apartment'', lit ''suite'', lit ''ste'', lit ''unit'',
                          lit ''#'', lit ''room'', lit ''rm'', lit ''floor'', lit ''fl'',
                          lit ''building'', lit ''bldg'']),
             Rep cls_not_word 0 None,
             Grp 2 (Rep cls_alnum_hyphen 1 None)])
          (Grp 3 (alts [seqs [WordB, lit ''basement'', WordB],
                        seqs [WordB, lit ''front'', WordB],
                        seqs [WordB, lit ''rear'', WordB]])),
      [1, 2, 3])"

text \<open>\<^verbatim>\<open>(?i)\b(and|at|&|@)\b\<close>\<close>

definition patterns_corner :: regexp where
  "patterns_corner =
     (seqs [WordB, Grp 1 (alts [lit ''and'', lit ''at'', lit ''&'', lit ''@'']), WordB], [1])"

text \<open>\<^verbatim>\<open>(?i)^[^\w]*p\W*(?:o|ost\s*office)?\W*box\W*(\d+)\<close>\<close>

definition patterns_poBox :: regexp where
  "patterns_poBox =
     (seqs [Bol, Rep cls_not_word 0 None, lit ''p'', Rep cls_not_word 0 None,
        opt (Alt (lit ''o'') (seqs [lit ''ost'', Rep cls_space 0 None, lit ''office''])),
        Rep cls_not_word 0 None, lit ''box'', Rep cls_not_word 0 None,
        Grp 1 (Rep cls_digit 1 None)], [1])"

section \<open>The input guard (\<open>validators.go\<close>)\<close>

definition MaxInputLength :: nat where
  "MaxInputLength = 10000"

definition MaxAddressLength :: nat where
  "MaxAddressLength = 500"

text \<open>
  The four errors. \<open>ErrInputTooLong\<close> is returned wrapped in a message that holds the
  length of the input and the bound; they are its arguments here.
\<close>

datatype error =
    ErrInputTooLong nat nat
  | ErrInputEmpty
  | ErrInvalidCharacters
  | ErrInvalidUTF8

text \<open>\<open>ValidateInput\<close>; \<open>None\<close> is the nil error.\<close>

definition ValidateInput :: "string \<Rightarrow> error option" where
  "ValidateInput input =
     (if input = [] then Some ErrInputEmpty
      else if \<not> ValidString input then Some ErrInvalidUTF8
      else if length input > MaxInputLength then Some (ErrInputTooLong (length input) MaxInputLength)
      else if CHR 0x00 \<in> set input then Some ErrInvalidCharacters
      else None)"

definition SanitizeInput :: "string \<Rightarrow> string" where
  "SanitizeInput input =
     (let input = ReplaceAll input (CHR 0x00) [];
          input = Join (Fields input) '' '';
          input = TrimSpace input
      in if length input > MaxAddressLength then take MaxAddressLength input else input)"

definition ValidateAndSanitize :: "string \<Rightarrow> error + string" where
  "ValidateAndSanitize input =
     (case ValidateInput input of
        Some err \<Rightarrow> Inl err
      | None \<Rightarrow> Inr (SanitizeInput input))"

section \<open>The data model\<close>

record ParsedAddress =
  Number :: string
  Prefix :: string
  Street :: string
  Type :: string
  Suffix :: string
  SecUnitType :: string
  SecUnitNum :: string
  City :: string
  State :: string
  ZIP :: string
  Plus4 :: string

text \<open>
  The fields \<open>City\<close>, \<open>State\<close> and \<open>ZIP\<close> of \<open>ParsedIntersection\<close> carry the suffix \<open>X\<close>,
  and the field \<open>Type\<close> of \<open>ParseResult\<close> is \<open>Kind\<close>: a field name belongs to one record.
\<close>

record ParsedIntersection =
  Prefix1 :: string
  Street1 :: string
  Type1 :: string
  Suffix1 :: string
  Prefix2 :: string
  Street2 :: string
  Type2 :: string
  Suffix2 :: string
  CityX :: string
  StateX :: string
  ZIPX :: string

record ParseResult =
  Kind :: string
  Address :: "ParsedAddress option"
  Intersection :: "ParsedIntersection option"

definition empty_address :: ParsedAddress where
  "empty_address =
     \<lparr>Number = [], Prefix = [], Street = [], Type = [], Suffix = [], SecUnitType = [],
      SecUnitNum = [], City = [], State = [], ZIP = [], Plus4 = []\<rparr>"

definition empty_intersection :: ParsedIntersection where
  "empty_intersection =
     \<lparr>Prefix1 = [], Street1 = [], Type1 = [], Suffix1 = [], Prefix2 = [], Street2 = [],
      Type2 = [], Suffix2 = [], CityX = [], StateX = [], ZIPX = []\<rparr>"

text \<open>
  The normalisation tables and the three functions that look a token up in them are not
  part of the sources at hand; neither are the Unicode case tables of the Go runtime. The
  parser takes them as parameters: \<open>NormalizeDirectional\<close>, \<open>NormalizeStreetType\<close> and
  \<open>NormalizeState\<close> give the canonical form of a token or the empty string, \<open>StreetType\<close>
  is the map from street-type words to abbreviations, and \<open>unicode_ToUpper\<close>,
  \<open>unicode_ToLower\<close> map the code points above 127.
\<close>

record tables =
  NormalizeDirectional :: "string \<Rightarrow> string"
  NormalizeStreetType :: "string \<Rightarrow> string"
  NormalizeState :: "string \<Rightarrow> string"
  StreetType :: "string \<rightharpoonup> string"
  unicode_ToUpper :: "nat \<Rightarrow> nat"
  unicode_ToLower :: "nat \<Rightarrow> nat"

definition IsEmpty :: "ParsedAddress \<Rightarrow> bool" where
  "IsEmpty p =
     (Number p = [] \<and> Prefix p = [] \<and> Street p = [] \<and> Type p = [] \<and> Suffix p = []
      \<and> SecUnitType p = [] \<and> SecUnitNum p = [] \<and> City p = [] \<and> State p = []
      \<and> ZIP p = [] \<and> Plus4 p = [])"

definition titleCase :: "tables \<Rightarrow> string \<Rightarrow> string" where
  "titleCase T s =
     (let s = TrimSpace s in
      if s = [] then s
      else Join (map (\<lambda>word. if length word > 0
                               then ToUpper (unicode_ToUpper T) (take 1 word)
                                      @ ToLower (unicode_ToLower T) (drop 1 word)
                               else word)
                     (Fields s)) '' '')"

definition Normalize :: "tables \<Rightarrow> ParsedAddress \<Rightarrow> ParsedAddress" where
  "Normalize T p =
     \<lparr>Number = TrimSpace (Number p),
      Prefix = TrimSpace (Prefix p),
      Street = titleCase T (Street p),
      Type = TrimSpace (Type p),
      Suffix = TrimSpace (Suffix p),
      SecUnitType = TrimSpace (SecUnitType p),
      SecUnitNum = TrimSpace (SecUnitNum p),
      City = titleCase T (City p),
      State = ToUpper (unicode_ToUpper T) (TrimSpace (State p)),
      ZIP = TrimSpace (ZIP p),
      Plus4 = TrimSpace (Plus4 p)\<rparr>"

section \<open>The parser (\<open>parser.go\<close>)\<close>

text \<open>
  An index or a slice expression out of range stops a Go program with a run-time panic.
  The functions below return an option, \<open>None\<close> being that panic, wherever the source
  indexes a slice; an index guarded by a test of the length in the same condition is
  written with \<open>hd\<close>, \<open>last\<close> or \<open>!\<close> under that test.
\<close>

definition at :: "'a list \<Rightarrow> int \<Rightarrow> 'a option" where
  "at xs i = (if 0 \<le> i \<and> i < int (length xs) then Some (xs ! nat i) else None)"

definition slice :: "'a list \<Rightarrow> int \<Rightarrow> int \<Rightarrow> 'a list option" where
  "slice xs lo hi =
     (if 0 \<le> lo \<and> lo \<le> hi \<and> hi \<le> int (length xs)
      then Some (take (nat hi - nat lo) (drop (nat lo) xs)) else None)"

subsection \<open>\<open>ParseAddress\<close>\<close>

text \<open>Lines 127 to 135: the ZIP code is read and every match of its pattern removed.\<close>

definition extract_zip :: "ParsedAddress \<times> string \<Rightarrow> (ParsedAddress \<times> string) option" where
  "extract_zip ra =
     (case ra of (result, address) \<Rightarrow>
      (case FindStringSubmatch patterns_zip address of
         None \<Rightarrow> Some (result, address)
       | Some matches \<Rightarrow>
          (case at matches 1 of
             None \<Rightarrow> None
           | Some m1 \<Rightarrow>
              Some ((if length matches > 2 \<and> matches ! 2 \<noteq> []
                     then result\<lparr>ZIP := m1, Plus4 := matches ! 2\<rparr>
                     else result\<lparr>ZIP := m1\<rparr>),
                    ReplaceAllString patterns_zip address []))))"

text \<open>
  Lines 166 to 175: the start of the city is moved to the left until the word before it
  is a key of \<open>StreetType\<close> or matches the pattern of the street number.
\<close>

function city_loop :: "tables \<Rightarrow> string list \<Rightarrow> int \<Rightarrow> int option" where
  "city_loop T words cityStart =
     (if cityStart > 0 then
        (case at words (cityStart - 1) of
           None \<Rightarrow> None
         | Some w \<Rightarrow>
            if StreetType T (ToLower (unicode_ToLower T) w) \<noteq> None then Some cityStart
            else if MatchString patterns_number w then Some cityStart
            else city_loop T words (cityStart - 1))
      else Some cityStart)"
  by pat_completeness auto
termination
  by (relation "measure (\<lambda>(T, words, cityStart). nat cityStart)") simp_all

declare city_loop.simps [simp del]

text \<open>
  Lines 158 to 182: the last three words at most are tried, from the right, for a state;
  the first one found ends the loop.
\<close>

function state_loop ::
  "tables \<Rightarrow> string list \<Rightarrow> int \<Rightarrow> ParsedAddress \<times> string \<Rightarrow> (ParsedAddress \<times> string) option" where
  "state_loop T words i ra =
     (case ra of (result, address) \<Rightarrow>
      if i \<ge> 0 \<and> i \<ge> int (length words) - 3 then
        (case at words i of
           None \<Rightarrow> None
         | Some w \<Rightarrow>
            (case FindStringSubmatch patterns_state w of
               None \<Rightarrow> state_loop T words (i - 1) (result, address)
             | Some matches \<Rightarrow>
                (case at matches 1 of
                   None \<Rightarrow> None
                 | Some m1 \<Rightarrow>
                    if i > 0 then
                      (case city_loop T words (i - 1) of
                         None \<Rightarrow> None
                       | Some cityStart \<Rightarrow>
                          (case (slice words cityStart i, slice words 0 cityStart) of
                             (Some city, Some street) \<Rightarrow>
                               Some (result\<lparr>State := NormalizeState T m1, City := Join city '' ''\<rparr>,
                                     Join street '' '')
                           | _ \<Rightarrow> None))
                    else Some (result\<lparr>State := NormalizeState T m1\<rparr>, address))))
      else Some (result, address))"
  by pat_completeness auto
termination
  by (relation "measure (\<lambda>(T, words, i, ra). nat (i + 1))") simp_all

declare state_loop.simps [simp del]

text \<open>Lines 137 to 184: state and city, by commas when there are any, by words otherwise.\<close>

definition extract_state_city ::
  "tables \<Rightarrow> ParsedAddress \<times> string \<Rightarrow> (ParsedAddress \<times> string) option" where
  "extract_state_city T ra =
     (case ra of (result, address) \<Rightarrow>
      let parts = Split address (CHR '','') in
      if length parts \<ge> 2 then
        (case at parts (int (length parts) - 1) of
           None \<Rightarrow> None
         | Some lp \<Rightarrow>
            let lastPart = TrimSpace lp in
            (case (case FindStringSubmatch patterns_state lastPart of
                     None \<Rightarrow> Some (result, address)
                   | Some matches \<Rightarrow>
                      (case at matches 1 of
                         None \<Rightarrow> None
                       | Some m1 \<Rightarrow>
                          Some (result\<lparr>State := NormalizeState T m1\<rparr>,
                                TrimSuffix (TrimSuffix address lastPart) '','')))
             of None \<Rightarrow> None
              | Some (result, address) \<Rightarrow>
                 if length parts \<ge> 2 then
                   (case (at parts (int (length parts) - 2),
                          slice parts 0 (int (length parts) - 2)) of
                      (Some c, Some ps) \<Rightarrow> Some (result\<lparr>City := TrimSpace c\<rparr>, Join ps '','')
                    | _ \<Rightarrow> None)
                 else Some (result, address)))
      else if length parts = 1 then
        (let words = Fields address in
         if length words \<ge> 2 then state_loop T words (int (length words) - 1) (result, address)
         else Some (result, address))
      else Some (result, address))"

text \<open>Lines 186 to 197: the secondary unit; every match is replaced by a space.\<close>

definition extract_secUnit :: "ParsedAddress \<times> string \<Rightarrow> (ParsedAddress \<times> string) option" where
  "extract_secUnit ra =
     (case ra of (result, address) \<Rightarrow>
      (case FindStringSubmatch patterns_secUnit address of
         None \<Rightarrow> Some (result, address)
       | Some matches \<Rightarrow>
          (case at matches 1 of
             None \<Rightarrow> None
           | Some m1 \<Rightarrow>
              if m1 \<noteq> [] then
                Some ((if length matches > 2 \<and> matches ! 2 \<noteq> []
                       then result\<lparr>SecUnitType := TrimSpace m1, SecUnitNum := TrimSpace (matches ! 2)\<rparr>
                       else result\<lparr>SecUnitType := TrimSpace m1\<rparr>),
                      ReplaceAllString patterns_secUnit address '' '')
              else
                (case at matches 3 of
                   None \<Rightarrow> None
                 | Some m3 \<Rightarrow>
                    Some ((if m3 \<noteq> [] then result\<lparr>SecUnitType := TrimSpace m3\<rparr> else result),
                          ReplaceAllString patterns_secUnit address '' '')))))"

text \<open>Lines 199 to 204: the street number; the first occurrence of the match is removed.\<close>

definition extract_number :: "ParsedAddress \<times> string \<Rightarrow> (ParsedAddress \<times> string) option" where
  "extract_number ra =
     (case ra of (result, address) \<Rightarrow>
      (case FindStringSubmatch patterns_number address of
         None \<Rightarrow> Some (result, address)
       | Some matches \<Rightarrow>
          (case (at matches 1, at matches 0) of
             (Some m1, Some m0) \<Rightarrow> Some (result\<lparr>Number := TrimSpace m1\<rparr>, Replace1 address m0 [])
           | _ \<Rightarrow> None)))"

text \<open>Lines 215 to 221: a first word that is a directional becomes the prefix.\<close>

definition check_prefix :: "tables \<Rightarrow> ParsedAddress \<times> string list \<Rightarrow> ParsedAddress \<times> string list" where
  "check_prefix T rw =
     (case rw of (result, words) \<Rightarrow>
      if length words > 0 \<and> NormalizeDirectional T (hd words) \<noteq> []
      then (result\<lparr>Prefix := NormalizeDirectional T (hd words)\<rparr>, tl words)
      else (result, words))"

text \<open>Lines 223 to 229: a last word that is a directional becomes the suffix.\<close>

definition check_suffix :: "tables \<Rightarrow> ParsedAddress \<times> string list \<Rightarrow> ParsedAddress \<times> string list" where
  "check_suffix T rw =
     (case rw of (result, words) \<Rightarrow>
      if length words > 0 \<and> NormalizeDirectional T (last words) \<noteq> []
      then (result\<lparr>Suffix := NormalizeDirectional T (last words)\<rparr>, butlast words)
      else (result, words))"

text \<open>Lines 231 to 238: the last word is taken as the street type.\<close>

definition check_type :: "tables \<Rightarrow> ParsedAddress \<times> string list \<Rightarrow> ParsedAddress \<times> string list" where
  "check_type T rw =
     (case rw of (result, words) \<Rightarrow>
      if length words > 0 then
        (let streetType = NormalizeStreetType T (last words) in
         if streetType \<noteq> [] \<and> streetType \<noteq> last words
         then (result\<lparr>Type := streetType\<rparr>, butlast words)
         else (result, words))
      else (result, words))"

text \<open>Lines 240 to 243: the words left are the street name.\<close>

definition street_name :: "ParsedAddress \<times> string list \<Rightarrow> ParsedAddress" where
  "street_name rw =
     (case rw of (result, words) \<Rightarrow>
      if length words > 0 then result\<lparr>Street := Join words '' ''\<rparr> else result)"

text \<open>Lines 206 to 246: what is left of the address is split into words.\<close>

definition street_components :: "tables \<Rightarrow> ParsedAddress \<times> string \<Rightarrow> ParsedAddress" where
  "street_components T ra =
     (case ra of (result, address) \<Rightarrow>
      let words = Fields (TrimSpace address) in
      if length words = 0 then Normalize T result
      else Normalize T (street_name (check_type T (check_suffix T (check_prefix T (result, words))))))"

definition ParseAddress :: "tables \<Rightarrow> string \<Rightarrow> ParsedAddress option" where
  "ParseAddress T address =
     (case extract_zip (empty_address, address) of None \<Rightarrow> None | Some ra1 \<Rightarrow>
      (case extract_state_city T ra1 of None \<Rightarrow> None | Some ra2 \<Rightarrow>
       (case extract_secUnit ra2 of None \<Rightarrow> None | Some ra3 \<Rightarrow>
        (case extract_number ra3 of None \<Rightarrow> None | Some ra4 \<Rightarrow>
         Some (street_components T ra4)))))"

text \<open>
  The local variable \<open>address\<close> of \<open>ParseAddress\<close> at line 198, after the ZIP code, the
  state, the city and the secondary unit have been removed.
\<close>

definition address_after_unit :: "tables \<Rightarrow> string \<Rightarrow> string option" where
  "address_after_unit T address =
     (case extract_zip (empty_address, address) of None \<Rightarrow> None | Some ra1 \<Rightarrow>
      (case extract_state_city T ra1 of None \<Rightarrow> None | Some ra2 \<Rightarrow>
       (case extract_secUnit ra2 of None \<Rightarrow> None | Some ra3 \<Rightarrow> Some (snd ra3))))"

subsection \<open>\<open>ParseInformalAddress\<close>\<close>

definition ParseInformalAddress :: "tables \<Rightarrow> string \<Rightarrow> ParsedAddress option" where
  "ParseInformalAddress T address =
     (case ParseAddress T address of
        None \<Rightarrow> None
      | Some result \<Rightarrow>
         if Number result = [] \<and> Street result = [] then
           (let words = Fields address in
            if length words > 0 then Some (result\<lparr>Street := Join words '' ''\<rparr>) else Some result)
         else Some result)"

subsection \<open>\<open>ParsePoAddress\<close>\<close>

definition extract_poBox :: "ParsedAddress \<times> string \<Rightarrow> ParsedAddress \<times> string" where
  "extract_poBox ra =
     (case ra of (result, address) \<Rightarrow>
      (case FindStringSubmatch patterns_poBox address of
         None \<Rightarrow> (result, address)
       | Some matches \<Rightarrow>
          ((if length matches > 1
            then result\<lparr>SecUnitType := ''PO Box'', SecUnitNum := matches ! 1\<rparr>
            else result\<lparr>SecUnitType := ''PO Box''\<rparr>),
           ReplaceAllString patterns_poBox address [])))"

definition extract_state :: "tables \<Rightarrow> ParsedAddress \<times> string \<Rightarrow> (ParsedAddress \<times> string) option" where
  "extract_state T ra =
     (case ra of (result, address) \<Rightarrow>
      (case FindStringSubmatch patterns_state address of
         None \<Rightarrow> Some (result, address)
       | Some matches \<Rightarrow>
          (case at matches 1 of
             None \<Rightarrow> None
           | Some m1 \<Rightarrow>
              Some (result\<lparr>State := NormalizeState T m1\<rparr>,
                    ReplaceAllString patterns_state address []))))"

definition remaining_city :: "ParsedAddress \<times> string \<Rightarrow> ParsedAddress" where
  "remaining_city ra =
     (case ra of (result, address) \<Rightarrow>
      let city = Trim (TrimSpace address) '','' in
      if city \<noteq> [] then result\<lparr>City := city\<rparr> else result)"

definition ParsePoAddress :: "tables \<Rightarrow> string \<Rightarrow> ParsedAddress option" where
  "ParsePoAddress T address =
     (case extract_zip (extract_poBox (empty_address, address)) of None \<Rightarrow> None | Some ra1 \<Rightarrow>
      (case extract_state T ra1 of None \<Rightarrow> None | Some ra2 \<Rightarrow>
       Some (Normalize T (remaining_city ra2))))"

subsection \<open>\<open>ParseIntersection\<close>\<close>

text \<open>
  \<open>Split(s, 2)\<close> of a pattern: the text before the first match and the text after it, or
  the whole text when there is no match. The pattern \<open>corner\<close> has no empty match; the
  model gives the whole text for one.
\<close>

definition Split2 :: "regexp \<Rightarrow> string \<Rightarrow> string list" where
  "Split2 re s =
     (if s = [] then [[]]
      else (case search (fst re) None (runes s) [] of
              None \<Rightarrow> [s]
            | Some (front, m, (pv, rest, cs)) \<Rightarrow>
               if m = [] then [s] else [text_of front, text_of rest]))"

text \<open>Lines 320 to 340: the words of the first street.\<close>

definition parse_street1 :: "tables \<Rightarrow> ParsedIntersection \<Rightarrow> string list \<Rightarrow> ParsedIntersection" where
  "parse_street1 T result words1 =
     (if length words1 > 0 then
        (let (result, words1) =
               (if NormalizeDirectional T (hd words1) \<noteq> []
                then (result\<lparr>Prefix1 := NormalizeDirectional T (hd words1)\<rparr>, tl words1)
                else (result, words1));
             (result, words1) =
               (if length words1 > 0 \<and> NormalizeDirectional T (last words1) \<noteq> []
                then (result\<lparr>Suffix1 := NormalizeDirectional T (last words1)\<rparr>, butlast words1)
                else (result, words1));
             (result, words1) =
               (if length words1 > 0 then
                  (let streetType = NormalizeStreetType T (last words1) in
                   if streetType \<noteq> [] \<and> streetType \<noteq> last words1
                   then (result\<lparr>Type1 := streetType\<rparr>, butlast words1)
                   else (result, words1))
                else (result, words1))
         in if length words1 > 0 then result\<lparr>Street1 := Join words1 '' ''\<rparr> else result)
      else result)"

text \<open>Lines 363 to 383: the words of the second street.\<close>

definition parse_street2 :: "tables \<Rightarrow> ParsedIntersection \<Rightarrow> string list \<Rightarrow> ParsedIntersection" where
  "parse_street2 T result words2 =
     (if length words2 > 0 then
        (let (result, words2) =
               (if NormalizeDirectional T (hd words2) \<noteq> []
                then (result\<lparr>Prefix2 := NormalizeDirectional T (hd words2)\<rparr>, tl words2)
                else (result, words2));
             (result, words2) =
               (if length words2 > 0 \<and> NormalizeDirectional T (last words2) \<noteq> []
                then (result\<lparr>Suffix2 := NormalizeDirectional T (last words2)\<rparr>, butlast words2)
                else (result, words2));
             (result, words2) =
               (if length words2 > 0 then
                  (let streetType = NormalizeStreetType T (last words2) in
                   if streetType \<noteq> [] \<and> streetType \<noteq> last words2
                   then (result\<lparr>Type2 := streetType\<rparr>, butlast words2)
                   else (result, words2))
                else (result, words2))
         in if length words2 > 0 then result\<lparr>Street2 := Join words2 '' ''\<rparr> else result)
      else result)"

text \<open>Lines 344 to 347: the ZIP code of the second part.\<close>

definition intersection_zip ::
  "ParsedIntersection \<times> string \<Rightarrow> (ParsedIntersection \<times> string) option" where
  "intersection_zip rs =
     (case rs of (result, street2) \<Rightarrow>
      (case FindStringSubmatch patterns_zip street2 of
         None \<Rightarrow> Some (result, street2)
       | Some matches \<Rightarrow>
          (case at matches 1 of
             None \<Rightarrow> None
           | Some m1 \<Rightarrow> Some (result\<lparr>ZIPX := m1\<rparr>, ReplaceAllString patterns_zip street2 []))))"

text \<open>Lines 349 to 361: state and city of the second part, by commas.\<close>

definition intersection_city_state ::
  "tables \<Rightarrow> ParsedIntersection \<times> string \<Rightarrow> (ParsedIntersection \<times> string) option" where
  "intersection_city_state T rs =
     (case rs of (result, street2) \<Rightarrow>
      let streetParts = Split street2 (CHR '','') in
      if length streetParts > 1 then
        (case at streetParts (int (length streetParts) - 1) of
           None \<Rightarrow> None
         | Some lp \<Rightarrow>
            (case (case FindStringSubmatch patterns_state (TrimSpace lp) of
                     None \<Rightarrow> Some (result, streetParts)
                   | Some matches \<Rightarrow>
                      (case (at matches 1, slice streetParts 0 (int (length streetParts) - 1)) of
                         (Some m1, Some sp) \<Rightarrow> Some (result\<lparr>StateX := NormalizeState T m1\<rparr>, sp)
                       | _ \<Rightarrow> None))
             of None \<Rightarrow> None
              | Some (result, streetParts) \<Rightarrow>
                 if length streetParts > 1 then
                   (case (at streetParts (int (length streetParts) - 1), at streetParts 0) of
                      (Some c, Some s0) \<Rightarrow> Some (result\<lparr>CityX := TrimSpace c\<rparr>, TrimSpace s0)
                    | _ \<Rightarrow> None)
                 else Some (result, street2)))
      else Some (result, street2))"

text \<open>
  Lines 308 to 383, the result before the types are reconciled. The inner option is the
  pointer returned: \<open>None\<close> is nil.
\<close>

definition intersection_fields :: "tables \<Rightarrow> string \<Rightarrow> ParsedIntersection option option" where
  "intersection_fields T address =
     (let parts = Split2 patterns_corner address in
      if length parts \<noteq> 2 then Some None
      else
        (case (at parts 0, at parts 1) of
           (Some p0, Some p1) \<Rightarrow>
             (let street1 = TrimSpace p0;
                  street2 = TrimSpace p1;
                  result = parse_street1 T empty_intersection (Fields street1) in
              (case intersection_zip (result, street2) of None \<Rightarrow> None | Some rs1 \<Rightarrow>
               (case intersection_city_state T rs1 of None \<Rightarrow> None | Some (result, street2) \<Rightarrow>
                Some (Some (parse_street2 T result (Fields street2))))))
         | _ \<Rightarrow> None))"

text \<open>Lines 385 to 390: a missing type is taken from the other street.\<close>

definition common_type :: "ParsedIntersection \<Rightarrow> ParsedIntersection" where
  "common_type result =
     (if Type1 result = [] \<and> Type2 result \<noteq> [] then result\<lparr>Type1 := Type2 result\<rparr>
      else if Type2 result = [] \<and> Type1 result \<noteq> [] then result\<lparr>Type2 := Type1 result\<rparr>
      else result)"

definition ParseIntersection :: "tables \<Rightarrow> string \<Rightarrow> ParsedIntersection option option" where
  "ParseIntersection T address =
     (case intersection_fields T address of
        None \<Rightarrow> None
      | Some None \<Rightarrow> Some None
      | Some (Some result) \<Rightarrow> Some (Some (common_type result)))"

subsection \<open>\<open>ParseLocation\<close>\<close>

text \<open>
  The cascade of lines 78 to 120 on the sanitized string. \<open>ParsePoAddress\<close>,
  \<open>ParseAddress\<close> and \<open>ParseInformalAddress\<close> never return a nil pointer, so their tests
  for nil are always passed.
\<close>

definition try_intersection :: "tables \<Rightarrow> string \<Rightarrow> ParseResult option option" where
  "try_intersection T sanitized =
     (if MatchString patterns_corner sanitized then
        (case ParseIntersection T sanitized of
           None \<Rightarrow> None
         | Some None \<Rightarrow> Some None
         | Some (Some intersection) \<Rightarrow>
            if Street1 intersection \<noteq> []
            then Some (Some \<lparr>Kind = ''intersection'', Address = None, Intersection = Some intersection\<rparr>)
            else Some None)
      else Some None)"

definition try_poBox :: "tables \<Rightarrow> string \<Rightarrow> ParseResult option option" where
  "try_poBox T sanitized =
     (if MatchString patterns_poBox sanitized then
        (case ParsePoAddress T sanitized of
           None \<Rightarrow> None
         | Some addr \<Rightarrow>
            if \<not> IsEmpty addr
            then Some (Some \<lparr>Kind = ''po_box'', Address = Some addr, Intersection = None\<rparr>)
            else Some None)
      else Some None)"

definition try_address :: "ParsedAddress option \<Rightarrow> ParseResult option option" where
  "try_address parsed =
     (case parsed of
        None \<Rightarrow> None
      | Some addr \<Rightarrow>
         if \<not> IsEmpty addr
         then Some (Some \<lparr>Kind = ''address'', Address = Some addr, Intersection = None\<rparr>)
         else Some None)"

definition route :: "tables \<Rightarrow> string \<Rightarrow> ParseResult option" where
  "route T sanitized =
     (case try_intersection T sanitized of None \<Rightarrow> None | Some (Some r) \<Rightarrow> Some r | Some None \<Rightarrow>
      (case try_poBox T sanitized of None \<Rightarrow> None | Some (Some r) \<Rightarrow> Some r | Some None \<Rightarrow>
       (case try_address (ParseAddress T sanitized) of None \<Rightarrow> None | Some (Some r) \<Rightarrow> Some r | Some None \<Rightarrow>
        (case try_address (ParseInformalAddress T sanitized) of None \<Rightarrow> None | Some (Some r) \<Rightarrow> Some r | Some None \<Rightarrow>
         Some \<lparr>Kind = ''none'', Address = None, Intersection = None\<rparr>))))"

text \<open>
  \<open>ParseLocation\<close>: \<open>None\<close> is a run-time panic, \<open>Some (Inl err)\<close> the return of
  \<open>(nil, err)\<close>, \<open>Some (Inr r)\<close> the return of \<open>(r, nil)\<close>.
\<close>

definition ParseLocation :: "tables \<Rightarrow> string \<Rightarrow> (error + ParseResult) option" where
  "ParseLocation T address =
     (case ValidateAndSanitize address of
        Inl err \<Rightarrow> Some (Inl err)
      | Inr sanitized \<Rightarrow> map_option Inr (route T sanitized))"

section \<open>Example inputs and tables\<close>

text \<open>
  Modelled from the spec: the normalisation tables and the functions
  \<open>NormalizeDirectional\<close>, \<open>NormalizeStreetType\<close> and \<open>NormalizeState\<close>, which are not in
  the sources at hand. The spec describes them as read-only mappings from a directional
  word to its abbreviation (north to N, northeast to NE), from a street-type synonym to
  its abbreviation (avenue to ave, boulevard to blvd) and from a state name or
  abbreviation to the two-letter code; the tests of the repository look tokens up without
  regard to case (\<open>N\<close> gives \<open>N\<close>, \<open>CA\<close> gives \<open>CA\<close>, \<open>Hwy\<close> gives \<open>hwy\<close>). The tables here
  hold a few entries of each kind, enough for the examples, and the case mapping above
  127 is the identity. They are used for examples only: every general theorem below
  holds for all tables.
\<close>

definition example_directional :: "(string \<times> string) list" where
  "example_directional =
     [(''north'', ''N''), (''south'', ''S''), (''east'', ''E''), (''west'', ''W''),
      (''northeast'', ''NE''), (''northwest'', ''NW''), (''southeast'', ''SE''),
      (''southwest'', ''SW''), (''n'', ''N''), (''s'', ''S''), (''e'', ''E''), (''w'', ''W''),
      (''ne'', ''NE''), (''nw'', ''NW''), (''se'', ''SE''), (''sw'', ''SW'')]"

definition example_street_type :: "(string \<times> string) list" where
  "example_street_type =
     [(''avenue'', ''ave''), (''ave'', ''ave''), (''boulevard'', ''blvd''), (''blvd'', ''blvd''),
      (''highway'', ''hwy''), (''hwy'', ''hwy''), (''street'', ''st''), (''st'', ''st'')]"

definition example_state :: "(string \<times> string) list" where
  "example_state =
     [(''california'', ''CA''), (''ca'', ''CA''), (''texas'', ''TX''), (''tx'', ''TX''),
      (''oregon'', ''OR''), (''or'', ''OR''), (''ny'', ''NY'')]"

definition example_lookup :: "(string \<times> string) list \<Rightarrow> string \<Rightarrow> string" where
  "example_lookup table s =
     (case map_of table (ToLower (\<lambda>r. r) (TrimSpace s)) of None \<Rightarrow> [] | Some v \<Rightarrow> v)"

definition example_tables :: tables where
  "example_tables =
     \<lparr>NormalizeDirectional = example_lookup example_directional,
      NormalizeStreetType = example_lookup example_street_type,
      NormalizeState = example_lookup example_state,
      StreetType = map_of example_street_type,
      unicode_ToUpper = (\<lambda>r. r),
      unicode_ToLower = (\<lambda>r. r)\<rparr>"

text \<open>
  An input of 501 bytes that is valid UTF-8: 499 times the letter a, then U+00E9 in its
  two bytes.
\<close>

definition long_input :: string where
  "long_input = replicate 499 (CHR ''a'') @ [CHR 0xC3, CHR 0xA9]"


section \<open>Evaluation\<close>

lemmas string_eval =
  byte_def locb_def decode_multi_def RuneError_def ValidString_def EncodeRune_def IsSpace_def
  Fields_def TrimSpace_def HasSuffix_def TrimSuffix_def Trim_def HasPrefix_def ReplaceAll_def
  upper_ascii_def lower_ascii_def Map_runes_def ToUpper_def ToLower_def text_of_def

lemmas regexp_eval =
  IsWordChar_def word_before_def word_after_def search.simps MatchString_def
  FindStringSubmatch_def replace_from.simps ReplaceAllString_def Split2_def
  cls_digit_def cls_letter_def cls_word_def cls_not_word_def cls_not_word_hash_def cls_space_def
  cls_hyphen_def cls_hyphen_space_def cls_alnum_hyphen_def cls_nsew_def ch_def opt_def

lemmas parser_eval =
  MaxInputLength_def MaxAddressLength_def ValidateInput_def SanitizeInput_def
  ValidateAndSanitize_def empty_address_def empty_intersection_def IsEmpty_def titleCase_def
  Normalize_def at_def slice_def extract_zip_def city_loop.simps state_loop.simps
  extract_state_city_def extract_secUnit_def extract_number_def check_prefix_def
  check_suffix_def check_type_def street_name_def street_components_def ParseAddress_def
  address_after_unit_def ParseInformalAddress_def extract_poBox_def extract_state_def
  remaining_city_def ParsePoAddress_def parse_street1_def parse_street2_def
  intersection_zip_def intersection_city_state_def intersection_fields_def common_type_def
  ParseIntersection_def try_intersection_def try_poBox_def try_address_def route_def
  ParseLocation_def

lemmas example_eval =
  example_directional_def example_street_type_def example_state_def example_lookup_def
  example_tables_def

lemmas pattern_defs =
  patterns_number_def patterns_zip_def patterns_state_def patterns_secUnit_def
  patterns_corner_def patterns_poBox_def

section \<open>The empty working string\<close>

lemma corner_empty: "\<not> MatchString patterns_corner []"
  by (simp add: string_eval regexp_eval pattern_defs)

lemma poBox_empty: "\<not> MatchString patterns_poBox []"
  by (simp add: string_eval regexp_eval pattern_defs)

lemma ParseAddress_empty: "ParseAddress T [] = Some empty_address"
  by (simp add: string_eval regexp_eval parser_eval pattern_defs)

lemma ParseInformalAddress_empty: "ParseInformalAddress T [] = Some empty_address"
  by (simp add: ParseInformalAddress_def ParseAddress_empty Fields_def empty_address_def)

lemma route_empty: "route T [] = Some \<lparr>Kind = ''none'', Address = None, Intersection = None\<rparr>"
  by (simp add: route_def try_intersection_def corner_empty try_poBox_def poBox_empty
      try_address_def ParseAddress_empty ParseInformalAddress_empty IsEmpty_def empty_address_def)

section \<open>Strings without white space\<close>

lemma runes_ascii_run: "runes (replicate n (CHR ''a'') @ t) = replicate n (97, ''a'') @ runes t"
  by (induction n) (simp_all add: byte_def)

lemma fields_from_run:
  "fields_from (replicate n (97, ''a'') @ rs) cur = fields_from rs (cur @ replicate n (CHR ''a''))"
proof (induction n arbitrary: cur)
  case 0
  show ?case by simp
next
  case (Suc n)
  have "fields_from (replicate (Suc n) (97, ''a'') @ rs) cur
          = fields_from (replicate n (97, ''a'') @ rs) (cur @ ''a'')"
    by (simp add: IsSpace_def)
  also have "\<dots> = fields_from rs ((cur @ ''a'') @ replicate n (CHR ''a''))"
    by (rule Suc.IH)
  finally show ?case by (simp add: replicate_app_Cons_same)
qed

lemma concat_replicate_single: "concat (replicate n [x]) = replicate n x"
  by (induction n) simp_all

lemma ReplaceAll_absent: "old \<notin> set s \<Longrightarrow> ReplaceAll s old new = s"
  by (induction s) (auto simp: ReplaceAll_def)

lemma runes_long_input:
  "runes long_input = replicate 499 (97, ''a'') @ [(233, [CHR 0xC3, CHR 0xA9])]"
  by (simp add: long_input_def runes_ascii_run string_eval)

lemma Fields_long_input: "Fields long_input = [long_input]"
  unfolding Fields_def runes_long_input
  by (simp add: fields_from_run IsSpace_def long_input_def)

lemma TrimSpace_long_input: "TrimSpace long_input = long_input"
proof -
  have a: "replicate 499 (97::nat, ''a'') = (97, ''a'') # replicate 498 (97, ''a'')"
    by (simp add: eval_nat_numeral)
  have "dropWhile (\<lambda>(r, bs). IsSpace r) (runes long_input) = runes long_input"
    by (simp add: runes_long_input a IsSpace_def)
  moreover have "dropWhile (\<lambda>(r, bs). IsSpace r) (rev (runes long_input)) = rev (runes long_input)"
    by (simp add: runes_long_input IsSpace_def)
  moreover have "concat (map snd (runes long_input)) = long_input"
    unfolding runes_long_input
    by (simp add: long_input_def concat_replicate_single)
  ultimately show ?thesis by (simp add: TrimSpace_def)
qed

lemma ValidateInput_long_input: "ValidateInput long_input = None"
proof -
  have "ValidString long_input"
    by (simp add: ValidString_def runes_long_input RuneError_def list_all_iff)
  moreover have "long_input \<noteq> []" "length long_input = 501" "CHR 0x00 \<notin> set long_input"
    by (simp_all add: long_input_def)
  ultimately show ?thesis
    by (simp add: ValidateInput_def MaxInputLength_def)
qed

lemma SanitizeInput_long_input: "SanitizeInput long_input = replicate 499 (CHR ''a'') @ [CHR 0xC3]"
proof -
  have "ReplaceAll long_input (CHR 0x00) [] = long_input"
    by (rule ReplaceAll_absent) (simp add: long_input_def)
  then show ?thesis
    by (simp add: SanitizeInput_def Fields_long_input TrimSpace_long_input MaxAddressLength_def)
       (simp add: long_input_def)
qed

lemma cut_rune_invalid: "\<not> ValidString (replicate 499 (CHR ''a'') @ [CHR 0xC3])"
  by (simp add: ValidString_def runes_ascii_run string_eval)

section \<open>No index out of range\<close>

text \<open>
  Every index and slice expression of the parser is within range: no function of the
  parser returns \<open>None\<close>.
\<close>

lemma FindStringSubmatch_length:
  "FindStringSubmatch re s = Some ms \<Longrightarrow> length ms = Suc (length (snd re))"
  by (auto simp: FindStringSubmatch_def split: option.splits)

lemma at_in_range: "0 \<le> i \<Longrightarrow> i < int (length xs) \<Longrightarrow> \<exists>x. at xs i = Some x"
  by (simp add: at_def)

lemma slice_in_range:
  "0 \<le> lo \<Longrightarrow> lo \<le> hi \<Longrightarrow> hi \<le> int (length xs) \<Longrightarrow> \<exists>ys. slice xs lo hi = Some ys"
  by (simp add: slice_def)

lemma groups_of_patterns:
  "snd patterns_zip = [1, 2]" "snd patterns_state = [1]" "snd patterns_secUnit = [1, 2, 3]"
  "snd patterns_number = [1]" "snd patterns_poBox = [1]" "snd patterns_corner = [1]"
  by (simp_all add: pattern_defs)

lemma extract_zip_total: "\<exists>ra'. extract_zip ra = Some ra'"
  by (cases ra)
     (auto simp: extract_zip_def at_def groups_of_patterns
           dest!: FindStringSubmatch_length split: option.splits)

lemma city_loop_total:
  "0 \<le> c \<Longrightarrow> c \<le> int (length words) \<Longrightarrow>
     \<exists>c'. city_loop T words c = Some c' \<and> 0 \<le> c' \<and> c' \<le> c"
proof (induction T words c rule: city_loop.induct)
  case (1 T words cityStart)
  show ?case
  proof (cases "cityStart > 0")
    case False
    with "1.prems" show ?thesis by (subst city_loop.simps) simp
  next
    case True
    with "1.prems" obtain w where w: "at words (cityStart - 1) = Some w"
      by (auto simp: at_def)
    show ?thesis
    proof (cases "StreetType T (ToLower (unicode_ToLower T) w) \<noteq> None \<or> MatchString patterns_number w")
      case True
      with \<open>cityStart > 0\<close> w show ?thesis by (subst city_loop.simps) auto
    next
      case False
      with "1.IH" [OF \<open>cityStart > 0\<close> w] "1.prems" \<open>cityStart > 0\<close>
      obtain c' where "city_loop T words (cityStart - 1) = Some c'" "0 \<le> c'" "c' \<le> cityStart - 1"
        by auto
      with False \<open>cityStart > 0\<close> w show ?thesis by (subst city_loop.simps) auto
    qed
  qed
qed

lemma state_loop_total:
  "- 1 \<le> i \<Longrightarrow> i < int (length words) \<Longrightarrow> \<exists>ra'. state_loop T words i ra = Some ra'"
proof (induction T words i ra rule: state_loop.induct)
  case (1 T words i ra)
  obtain result address where ra: "ra = (result, address)" by (cases ra)
  show ?case
  proof (cases "i \<ge> 0 \<and> i \<ge> int (length words) - 3")
    case False
    with ra show ?thesis by (subst state_loop.simps) auto
  next
    case True
    with "1.prems" obtain w where w: "at words i = Some w"
      by (auto simp: at_def)
    show ?thesis
    proof (cases "FindStringSubmatch patterns_state w")
      case None
      from "1.IH" [OF ra [symmetric] True w None] "1.prems" True
      obtain ra' where "state_loop T words (i - 1) (result, address) = Some ra'" by auto
      with ra True w None show ?thesis by (subst state_loop.simps) auto
    next
      case (Some matches)
      then have "length matches = 2"
        by (auto dest!: FindStringSubmatch_length simp: groups_of_patterns)
      then obtain m1 where m1: "at matches 1 = Some m1" by (auto simp: at_def)
      show ?thesis
      proof (cases "i > 0")
        case False
        with ra True w Some m1 show ?thesis by (subst state_loop.simps) auto
      next
        case ipos: True
        with "1.prems" city_loop_total [of "i - 1" words T]
        obtain c where c: "city_loop T words (i - 1) = Some c" "0 \<le> c" "c \<le> i - 1" by auto
        with "1.prems" obtain ys zs where "slice words c i = Some ys" "slice words 0 c = Some zs"
          by (auto simp: slice_def)
        with ra True w Some m1 ipos c show ?thesis by (subst state_loop.simps) auto
      qed
    qed
  qed
qed

lemma Split_not_Nil: "Split s sep \<noteq> []"
  by (induction s) (simp_all split: list.split)

lemma extract_state_city_total: "\<exists>ra'. extract_state_city T ra = Some ra'"
proof -
  obtain result address where ra: "ra = (result, address)" by (cases ra)
  define parts where "parts = Split address (CHR '','')"
  show ?thesis
  proof (cases "length parts \<ge> 2")
    case True
    then have "\<exists>lp. at parts (int (length parts) - 1) = Some lp"
      "\<exists>c. at parts (int (length parts) - 2) = Some c"
      "\<exists>ps. slice parts 0 (int (length parts) - 2) = Some ps"
      by (auto intro!: at_in_range slice_in_range)
    then obtain lp c ps where
      lp: "at parts (int (length parts) - 1) = Some lp" and
      c: "at parts (int (length parts) - 2) = Some c" and
      ps: "slice parts 0 (int (length parts) - 2) = Some ps"
      by blast
    have "\<exists>ra1. (case FindStringSubmatch patterns_state (TrimSpace lp) of
                     None \<Rightarrow> Some (result, address)
                   | Some matches \<Rightarrow>
                      (case at matches 1 of
                         None \<Rightarrow> None
                       | Some m1 \<Rightarrow>
                          Some (result\<lparr>State := NormalizeState T m1\<rparr>,
                                TrimSuffix (TrimSuffix address (TrimSpace lp)) '',''))) = Some ra1"
      by (auto simp: at_def groups_of_patterns dest!: FindStringSubmatch_length
               split: option.splits)
    then obtain ra1 where ra1: "(case FindStringSubmatch patterns_state (TrimSpace lp) of
                     None \<Rightarrow> Some (result, address)
                   | Some matches \<Rightarrow>
                      (case at matches 1 of
                         None \<Rightarrow> None
                       | Some m1 \<Rightarrow>
                          Some (result\<lparr>State := NormalizeState T m1\<rparr>,
                                TrimSuffix (TrimSuffix address (TrimSpace lp)) '',''))) = Some ra1"
      by blast
    with ra True lp c ps show ?thesis
      by (cases ra1) (simp add: extract_state_city_def parts_def [symmetric] Let_def)
  next
    case False
    show ?thesis
    proof (cases "length parts = 1 \<and> length (Fields address) \<ge> 2")
      case True
      with state_loop_total [of "int (length (Fields address)) - 1" "Fields address" T "(result, address)"]
      obtain ra' where "state_loop T (Fields address) (int (length (Fields address)) - 1) (result, address) = Some ra'"
        by auto
      with ra False True show ?thesis
        by (simp add: extract_state_city_def parts_def [symmetric] Let_def)
    next
      case F2: False
      with ra False show ?thesis
        by (auto simp: extract_state_city_def parts_def [symmetric] Let_def)
    qed
  qed
qed

lemma extract_secUnit_total: "\<exists>ra'. extract_secUnit ra = Some ra'"
  by (cases ra)
     (auto simp: extract_secUnit_def at_def groups_of_patterns
           dest!: FindStringSubmatch_length split: option.splits)

lemma extract_number_total: "\<exists>ra'. extract_number ra = Some ra'"
  by (cases ra)
     (auto simp: extract_number_def at_def groups_of_patterns
           dest!: FindStringSubmatch_length split: option.splits)

lemma extract_state_total: "\<exists>ra'. extract_state T ra = Some ra'"
  by (cases ra)
     (auto simp: extract_state_def at_def groups_of_patterns
           dest!: FindStringSubmatch_length split: option.splits)

lemma ParseAddress_total: "\<exists>r. ParseAddress T address = Some r"
proof -
  obtain ra1 where 1: "extract_zip (empty_address, address) = Some ra1"
    using extract_zip_total by blast
  obtain ra2 where 2: "extract_state_city T ra1 = Some ra2"
    using extract_state_city_total by blast
  obtain ra3 where 3: "extract_secUnit ra2 = Some ra3"
    using extract_secUnit_total by blast
  obtain ra4 where 4: "extract_number ra3 = Some ra4"
    using extract_number_total by blast
  from 1 2 3 4 show ?thesis by (simp add: ParseAddress_def)
qed

lemma ParseInformalAddress_total: "\<exists>r. ParseInformalAddress T address = Some r"
proof -
  obtain r where "ParseAddress T address = Some r" using ParseAddress_total by blast
  then show ?thesis by (simp add: ParseInformalAddress_def Let_def)
qed

lemma ParsePoAddress_total: "\<exists>r. ParsePoAddress T address = Some r"
proof -
  obtain ra1 where 1: "extract_zip (extract_poBox (empty_address, address)) = Some ra1"
    using extract_zip_total by blast
  obtain ra2 where 2: "extract_state T ra1 = Some ra2"
    using extract_state_total by blast
  from 1 2 show ?thesis by (simp add: ParsePoAddress_def)
qed

lemma intersection_zip_total: "\<exists>rs'. intersection_zip rs = Some rs'"
  by (cases rs)
     (auto simp: intersection_zip_def at_def groups_of_patterns
           dest!: FindStringSubmatch_length split: option.splits)

lemma intersection_city_state_total: "\<exists>rs'. intersection_city_state T rs = Some rs'"
proof -
  obtain result street2 where rs: "rs = (result, street2)" by (cases rs)
  define streetParts where "streetParts = Split street2 (CHR '','')"
  show ?thesis
  proof (cases "length streetParts > 1")
    case False
    with rs show ?thesis
      by (simp add: intersection_city_state_def streetParts_def [symmetric] Let_def)
  next
    case True
    then have "\<exists>lp. at streetParts (int (length streetParts) - 1) = Some lp"
      "\<exists>sp. slice streetParts 0 (int (length streetParts) - 1) = Some sp"
      by (auto intro!: at_in_range slice_in_range)
    then obtain lp sp where
      lp: "at streetParts (int (length streetParts) - 1) = Some lp" and
      sp: "slice streetParts 0 (int (length streetParts) - 1) = Some sp"
      by blast
    show ?thesis
    proof (cases "FindStringSubmatch patterns_state (TrimSpace lp)")
      case None
      from True have "\<exists>s0. at streetParts 0 = Some s0"
        by (auto intro!: at_in_range)
      then obtain s0 where "at streetParts 0 = Some s0" by blast
      with rs True lp None show ?thesis
        by (simp add: intersection_city_state_def streetParts_def [symmetric] Let_def)
    next
      case (Some matches)
      then have "length matches = 2"
        by (auto dest!: FindStringSubmatch_length simp: groups_of_patterns)
      then obtain m1 where m1: "at matches 1 = Some m1" by (auto simp: at_def)
      show ?thesis
      proof (cases "length sp > 1")
        case False
        with rs True lp sp Some m1 show ?thesis
          by (simp add: intersection_city_state_def streetParts_def [symmetric] Let_def)
      next
        case T2: True
        then have "\<exists>c. at sp (int (length sp) - 1) = Some c" "\<exists>s0. at sp 0 = Some s0"
          by (auto intro!: at_in_range)
        then obtain c s0 where
          "at sp (int (length sp) - 1) = Some c" "at sp 0 = Some s0"
          by blast
        with rs True lp sp Some m1 T2 show ?thesis
          by (simp add: intersection_city_state_def streetParts_def [symmetric] Let_def)
      qed
    qed
  qed
qed

lemma intersection_fields_total: "\<exists>r. intersection_fields T address = Some r"
proof (cases "length (Split2 patterns_corner address) \<noteq> 2")
  case True
  then show ?thesis by (simp add: intersection_fields_def Let_def)
next
  case False
  then have "\<exists>p0. at (Split2 patterns_corner address) 0 = Some p0"
    "\<exists>p1. at (Split2 patterns_corner address) 1 = Some p1"
    by (auto intro!: at_in_range)
  then obtain p0 p1 where p: "at (Split2 patterns_corner address) 0 = Some p0"
    "at (Split2 patterns_corner address) 1 = Some p1"
    by blast
  obtain rs1 where 1:
    "intersection_zip (parse_street1 T empty_intersection (Fields (TrimSpace p0)), TrimSpace p1) = Some rs1"
    using intersection_zip_total by blast
  obtain rs2 where 2: "intersection_city_state T rs1 = Some rs2"
    using intersection_city_state_total by blast
  from False p 1 2 show ?thesis
    by (cases rs2) (simp add: intersection_fields_def Let_def)
qed

lemma ParseIntersection_total: "\<exists>r. ParseIntersection T address = Some r"
proof -
  obtain r where "intersection_fields T address = Some r"
    using intersection_fields_total by blast
  then show ?thesis by (cases r) (simp_all add: ParseIntersection_def)
qed

lemma route_total: "\<exists>r. route T sanitized = Some r"
proof -
  obtain i where i: "ParseIntersection T sanitized = Some i"
    using ParseIntersection_total by blast
  obtain p where p: "ParsePoAddress T sanitized = Some p"
    using ParsePoAddress_total by blast
  obtain a where a: "ParseAddress T sanitized = Some a"
    using ParseAddress_total by blast
  obtain f where f: "ParseInformalAddress T sanitized = Some f"
    using ParseInformalAddress_total by blast
  have 1: "\<exists>x. try_intersection T sanitized = Some x"
    using i by (cases i) (simp_all add: try_intersection_def)
  have 2: "\<exists>x. try_poBox T sanitized = Some x"
    using p by (simp add: try_poBox_def)
  have 3: "\<exists>x. try_address (ParseAddress T sanitized) = Some x"
    using a by (simp add: try_address_def)
  have 4: "\<exists>x. try_address (ParseInformalAddress T sanitized) = Some x"
    using f by (simp add: try_address_def)
  from 1 2 3 4 show ?thesis
    by (auto simp: route_def split: option.splits)
qed

section \<open>The guard decides between error and result\<close>

lemma ParseLocation_guard:
  "ParseLocation T input =
     (case ValidateInput input of
        Some err \<Rightarrow> Some (Inl err)
      | None \<Rightarrow> map_option Inr (route T (SanitizeInput input)))"
  by (simp add: ParseLocation_def ValidateAndSanitize_def split: option.splits)

lemma ValidateInput_None:
  "ValidateInput input = None \<longleftrightarrow>
     input \<noteq> [] \<and> ValidString input \<and> length input \<le> MaxInputLength \<and> CHR 0x00 \<notin> set input"
  by (auto simp: ValidateInput_def)

lemma ParseLocation_accepted:
  "ValidateInput input = None \<Longrightarrow> \<exists>r. ParseLocation T input = Some (Inr r)"
  using route_total [of T "SanitizeInput input"] by (auto simp: ParseLocation_guard)

lemma ValidString_ascii_run: "ValidString (replicate n (CHR ''a''))"
  using runes_ascii_run [of n "[]"] by (simp add: ValidString_def list_all_iff RuneError_def)

section \<open>The cascade and the words of a string\<close>

lemma try_intersection_Some:
  "try_intersection T s = Some (Some r) \<Longrightarrow>
     \<exists>i. ParseIntersection T s = Some (Some i) \<and> Street1 i \<noteq> []
         \<and> r = \<lparr>Kind = ''intersection'', Address = None, Intersection = Some i\<rparr>"
  by (auto simp: try_intersection_def split: if_splits option.splits)

lemma try_poBox_Kind: "try_poBox T s = Some (Some r) \<Longrightarrow> Kind r = ''po_box''"
  by (auto simp: try_poBox_def split: if_splits option.splits)

lemma try_address_Kind: "try_address p = Some (Some r) \<Longrightarrow> Kind r = ''address''"
  by (auto simp: try_address_def split: if_splits option.splits)

lemma route_intersection:
  assumes "route T s = Some r" and "Kind r = ''intersection''"
  shows "try_intersection T s = Some (Some r)"
proof (cases "try_intersection T s")
  case None
  with assms show ?thesis by (simp add: route_def)
next
  case (Some x)
  show ?thesis
  proof (cases x)
    case (Some r')
    with \<open>try_intersection T s = Some x\<close> assms show ?thesis by (simp add: route_def)
  next
    case None
    note ti = None \<open>try_intersection T s = Some x\<close>
    have k: "Kind r \<noteq> ''po_box''" "Kind r \<noteq> ''address''" "Kind r \<noteq> ''none''"
      using assms(2) by simp_all
    from assms(1) ti k show ?thesis
      by (auto simp: route_def split: option.splits dest: try_poBox_Kind try_address_Kind)
  qed
qed

lemma runes_bytes_not_Nil: "(r, bs) \<in> set (runes s) \<Longrightarrow> bs \<noteq> []"
  by (induction s arbitrary: r bs rule: runes.induct) (auto split: if_splits)

lemma fields_from_not_Nil:
  "\<forall>(r, bs) \<in> set rs. bs \<noteq> [] \<Longrightarrow> w \<in> set (fields_from rs cur) \<Longrightarrow> w \<noteq> []"
proof (induction rs cur rule: fields_from.induct)
  case (1 cur)
  then show ?case by (auto split: if_splits)
next
  case (2 r bs rs cur)
  then show ?case by (auto split: if_splits)
qed

lemma Fields_not_Nil: "w \<in> set (Fields s) \<Longrightarrow> w \<noteq> []"
  using fields_from_not_Nil [of "runes s" w "[]"] runes_bytes_not_Nil [of _ _ s]
  by (auto simp: Fields_def)

lemma Join_not_Nil: "ws \<noteq> [] \<Longrightarrow> hd ws \<noteq> [] \<Longrightarrow> Join ws sep \<noteq> []"
proof (cases ws)
  case Nil
  assume "ws \<noteq> []"
  with Nil show ?thesis by simp
next
  case (Cons x xs)
  assume "hd ws \<noteq> []"
  with Cons show ?thesis by (cases xs) simp_all
qed

lemma Join_Fields_not_Nil: "Fields s \<noteq> [] \<Longrightarrow> Join (Fields s) sep \<noteq> []"
proof (rule Join_not_Nil)
  assume ne: "Fields s \<noteq> []"
  then show "Fields s \<noteq> []" .
  from ne have "hd (Fields s) \<in> set (Fields s)" by (rule hd_in_set)
  then show "hd (Fields s) \<noteq> []" by (rule Fields_not_Nil)
qed

section \<open>Examples evaluated\<close>

lemmas char_eval = char_of_def bit_Suc_0_iff

lemmas all_eval = string_eval regexp_eval parser_eval pattern_defs char_eval

lemma ParseLocation_5th_Ave_and_Main:
  "ParseLocation example_tables ''5th Ave and Main'' =
       Some (Inr \<lparr>Kind = ''intersection'', Address = None,
                  Intersection = Some \<lparr>Prefix1 = [], Street1 = ''5th'', Type1 = ''ave'',
                    Suffix1 = [], Prefix2 = [], Street2 = ''Main'', Type2 = ''ave'', Suffix2 = [],
                    CityX = [], StateX = [], ZIPX = []\<rparr>\<rparr>)"
  by (simp add: all_eval example_eval)

lemma ParseIntersection_and_Main:
  "ParseIntersection example_tables ''and Main'' =
     Some (Some \<lparr>Prefix1 = [], Street1 = [], Type1 = [], Suffix1 = [], Prefix2 = [],
             Street2 = ''Main'', Type2 = [], Suffix2 = [], CityX = [], StateX = [], ZIPX = []\<rparr>)"
  by (simp add: all_eval example_eval)

lemma ParseAddress_Portland:
  "ParseAddress example_tables ''Portland, OR 97201'' =
     Some \<lparr>Number = [], Prefix = [], Street = [], Type = [], Suffix = [], SecUnitType = [],
           SecUnitNum = [], City = ''Portland'', State = ''OR'', ZIP = ''97201'', Plus4 = []\<rparr>"
  by (simp add: all_eval example_eval)

lemma Fields_Portland: "Fields ''Portland, OR 97201'' = [''Portland,'', ''OR'', ''97201'']"
  by (simp add: string_eval)

section \<open>An intersection whose second street is empty, for all tables\<close>

text \<open>
  Whatever the tables say of the words \<open>w\<close>, \<open>x\<close>, \<open>y\<close> and \<open>z\<close>, at most three of them are
  taken as prefix, suffix and type, so the first street of \<open>w x y z and\<close> is not empty;
  nothing follows the marker, so the second street is empty; and the input is classified
  as an intersection.
\<close>

lemma Split2_wxyz: "Split2 patterns_corner ''w x y z and'' = [''w x y z '', []]"
  by (simp add: all_eval)

lemma corner_wxyz: "MatchString patterns_corner ''w x y z and''"
  by (simp add: all_eval)

lemma guard_wxyz: "ValidateAndSanitize ''w x y z and'' = Inr ''w x y z and''"
  by (simp add: all_eval)

lemma Fields_wxyz: "Fields (TrimSpace ''w x y z '') = [''w'', ''x'', ''y'', ''z'']"
  by (simp add: all_eval)

lemma parse_street1_four_words:
  "Street1 (parse_street1 T empty_intersection [''w'', ''x'', ''y'', ''z'']) \<noteq> []"
  by (simp add: parse_street1_def empty_intersection_def Let_def)

lemma parse_street1_keeps_street2:
  "Street2 (parse_street1 T r ws) = Street2 r"
  by (simp add: parse_street1_def Let_def split: prod.splits)

lemma intersection_zip_Nil: "intersection_zip (r, []) = Some (r, [])"
  by (simp add: intersection_zip_def string_eval regexp_eval pattern_defs)

lemma intersection_city_state_Nil: "intersection_city_state T (r, []) = Some (r, [])"
  by (simp add: intersection_city_state_def Let_def)

lemma parse_street2_Nil: "parse_street2 T r [] = r"
  by (simp add: parse_street2_def)

lemma intersection_fields_wxyz:
  "intersection_fields T ''w x y z and'' =
     Some (Some (parse_street1 T empty_intersection [''w'', ''x'', ''y'', ''z'']))"
proof -
  have t: "TrimSpace [] = []" "Fields [] = []"
    by (simp_all add: TrimSpace_def Fields_def)
  show ?thesis
    unfolding intersection_fields_def Split2_wxyz
    by (simp add: at_def Fields_wxyz t intersection_zip_Nil intersection_city_state_Nil
        parse_street2_Nil)
qed

lemma empty_street2_for_all_tables:
  "\<exists>i. ParseLocation T ''w x y z and'' =
          Some (Inr \<lparr>Kind = ''intersection'', Address = None, Intersection = Some i\<rparr>)
       \<and> Street1 i \<noteq> [] \<and> Street2 i = []"
proof -
  let ?r = "parse_street1 T empty_intersection [''w'', ''x'', ''y'', ''z'']"
  have p: "ParseIntersection T ''w x y z and'' = Some (Some (common_type ?r))"
    by (simp add: ParseIntersection_def intersection_fields_wxyz)
  have s1: "Street1 (common_type ?r) \<noteq> []"
    using parse_street1_four_words [of T] by (simp add: common_type_def)
  have s2: "Street2 (common_type ?r) = []"
    using parse_street1_keeps_street2 [of T empty_intersection]
    by (simp add: common_type_def empty_intersection_def)
  have "ParseLocation T ''w x y z and'' =
          Some (Inr \<lparr>Kind = ''intersection'', Address = None, Intersection = Some (common_type ?r)\<rparr>)"
    using s1 by (simp add: ParseLocation_def guard_wxyz route_def try_intersection_def corner_wxyz p)
  with s1 s2 show ?thesis by blast
qed

section \<open>Claims\<close>

text \<open>
  C1. \<open>ParseLocation\<close> returns an error exactly when the input is empty, longer than
  10000 bytes, not valid UTF-8 or holds a NUL byte. The error is the one \<open>ValidateInput\<close>
  returns, so it is raised before any decomposition; an input that \<open>ValidateInput\<close>
  accepts gives a result. At the boundary, an input of exactly 10000 bytes (valid UTF-8,
  no NUL) gives a result, and an input of 10001 bytes (valid UTF-8) gives
  \<open>ErrInputTooLong\<close> and no result.
\<close>

theorem C1_errors_come_from_the_guard:
  "((\<exists>e. ParseLocation T input = Some (Inl e)) \<longleftrightarrow>
      (input = [] \<or> length input > MaxInputLength \<or> \<not> ValidString input \<or> CHR 0x00 \<in> set input))
   \<and> (ParseLocation T input = Some (Inl e) \<longleftrightarrow> ValidateInput input = Some e)
   \<and> (length input = MaxInputLength \<longrightarrow> ValidString input \<longrightarrow> CHR 0x00 \<notin> set input \<longrightarrow>
        (\<exists>r. ParseLocation T input = Some (Inr r)))
   \<and> (length input = MaxInputLength + 1 \<longrightarrow> ValidString input \<longrightarrow>
        ParseLocation T input = Some (Inl (ErrInputTooLong (MaxInputLength + 1) MaxInputLength)))"
proof (intro conjI impI)
  show "(\<exists>e. ParseLocation T input = Some (Inl e)) \<longleftrightarrow>
      (input = [] \<or> length input > MaxInputLength \<or> \<not> ValidString input \<or> CHR 0x00 \<in> set input)"
  proof (cases "ValidateInput input")
    case None
    with ParseLocation_accepted [OF None, of T] show ?thesis
      by (auto simp: ValidateInput_None)
  next
    case (Some err)
    then have "ValidateInput input \<noteq> None" by simp
    then have "\<not> (input \<noteq> [] \<and> ValidString input \<and> length input \<le> MaxInputLength \<and> CHR 0x00 \<notin> set input)"
      by (simp add: ValidateInput_None)
    with Some show ?thesis by (auto simp: ParseLocation_guard)
  qed
next
  show "ParseLocation T input = Some (Inl e) \<longleftrightarrow> ValidateInput input = Some e"
  proof (cases "ValidateInput input")
    case None
    with ParseLocation_accepted [OF None, of T] show ?thesis by auto
  next
    case (Some err)
    then show ?thesis by (auto simp: ParseLocation_guard)
  qed
next
  assume "length input = MaxInputLength" "ValidString input" "CHR 0x00 \<notin> set input"
  then have "ValidateInput input = None"
    by (auto simp: ValidateInput_None MaxInputLength_def)
  then show "\<exists>r. ParseLocation T input = Some (Inr r)" by (rule ParseLocation_accepted)
next
  assume "length input = MaxInputLength + 1" "ValidString input"
  then have "ValidateInput input = Some (ErrInputTooLong (MaxInputLength + 1) MaxInputLength)"
    by (auto simp: ValidateInput_def)
  then show "ParseLocation T input = Some (Inl (ErrInputTooLong (MaxInputLength + 1) MaxInputLength))"
    by (simp add: ParseLocation_guard)
qed

text \<open>
  C1, witness: 10000 letters give a result, 10001 letters give \<open>ErrInputTooLong\<close>, the empty
  input gives \<open>ErrInputEmpty\<close>.
\<close>

theorem C1_errors_come_from_the_guard_witness:
  "(\<exists>r. ParseLocation example_tables (replicate 10000 (CHR ''a'')) = Some (Inr r))
   \<and> ParseLocation example_tables (replicate 10001 (CHR ''a'')) = Some (Inl (ErrInputTooLong 10001 10000))
   \<and> ParseLocation example_tables [] = Some (Inl ErrInputEmpty)"
proof -
  have a: "(\<exists>r. ParseLocation example_tables (replicate 10000 (CHR ''a'')) = Some (Inr r))"
    using C1_errors_come_from_the_guard [of example_tables "replicate 10000 (CHR ''a'')"]
    by (simp add: ValidString_ascii_run MaxInputLength_def)
  have b: "ParseLocation example_tables (replicate 10001 (CHR ''a'')) = Some (Inl (ErrInputTooLong 10001 10000))"
    using C1_errors_come_from_the_guard [of example_tables "replicate 10001 (CHR ''a'')"]
    by (simp add: ValidString_ascii_run MaxInputLength_def)
  have c: "ParseLocation example_tables [] = Some (Inl ErrInputEmpty)"
    using C1_errors_come_from_the_guard [of example_tables "[]" ErrInputEmpty]
    by (simp add: ValidateInput_def)
  from a b c show ?thesis by simp
qed

text \<open>
  C2, as stated, fails: \<open>ParseLocation\<close> tests only \<open>Street1\<close> of the intersection. The
  valid input \<open>Main St and\<close> is classified as an intersection whose \<open>Street2\<close> is empty.
\<close>

theorem C2_intersection_with_empty_street2:
  "ValidateInput ''Main St and'' = None
   \<and> ParseLocation example_tables ''Main St and'' =
       Some (Inr \<lparr>Kind = ''intersection'', Address = None,
                  Intersection = Some \<lparr>Prefix1 = [], Street1 = ''Main'', Type1 = ''st'',
                    Suffix1 = [], Prefix2 = [], Street2 = [], Type2 = ''st'', Suffix2 = [],
                    CityX = [], StateX = [], ZIPX = []\<rparr>\<rparr>)"
  by (simp add: all_eval example_eval)

text \<open>
  C2, amended. \<open>ParseLocation\<close> returns a result of type \<open>intersection\<close> only with a
  \<open>Street1\<close> that is not empty, and the intersection path declines whenever
  \<open>ParseIntersection\<close> returns an empty \<open>Street1\<close>. Nothing is required of \<open>Street2\<close>.
\<close>

theorem C2_intersection_needs_street1:
  "(ParseLocation T input = Some (Inr r) \<longrightarrow> Kind r = ''intersection'' \<longrightarrow>
      (\<exists>i. Intersection r = Some i \<and> Street1 i \<noteq> []))
   \<and> (ParseIntersection T s = Some (Some i) \<longrightarrow> Street1 i = [] \<longrightarrow>
        try_intersection T s = Some None)"
proof (intro conjI impI)
  assume pl: "ParseLocation T input = Some (Inr r)" and k: "Kind r = ''intersection''"
  from pl obtain s where "route T s = Some r"
    by (auto simp: ParseLocation_def split: sum.splits)
  from route_intersection [OF this k] try_intersection_Some
  show "\<exists>i. Intersection r = Some i \<and> Street1 i \<noteq> []" by fastforce
next
  assume "ParseIntersection T s = Some (Some i)" "Street1 i = []"
  then show "try_intersection T s = Some None"
    by (simp add: try_intersection_def)
qed

text \<open>
  C2, witness: \<open>5th Ave and Main\<close> is an intersection with \<open>Street1 = 5th\<close>; for
  \<open>and Main\<close> the first street is empty and the path declines.
\<close>

theorem C2_intersection_needs_street1_witness:
  "ParseLocation example_tables ''5th Ave and Main'' =
       Some (Inr \<lparr>Kind = ''intersection'', Address = None,
                  Intersection = Some \<lparr>Prefix1 = [], Street1 = ''5th'', Type1 = ''ave'',
                    Suffix1 = [], Prefix2 = [], Street2 = ''Main'', Type2 = ''ave'', Suffix2 = [],
                    CityX = [], StateX = [], ZIPX = []\<rparr>\<rparr>)
   \<and> ParseIntersection example_tables ''and Main'' =
       Some (Some \<lparr>Prefix1 = [], Street1 = [], Type1 = [], Suffix1 = [], Prefix2 = [],
               Street2 = ''Main'', Type2 = [], Suffix2 = [], CityX = [], StateX = [], ZIPX = []\<rparr>)
   \<and> try_intersection example_tables ''and Main'' = Some None"
  using C2_intersection_needs_street1
    [of example_tables "''5th Ave and Main''" _ "''and Main''"
       "\<lparr>Prefix1 = [], Street1 = [], Type1 = [], Suffix1 = [], Prefix2 = [],
         Street2 = ''Main'', Type2 = [], Suffix2 = [], CityX = [], StateX = [], ZIPX = []\<rparr>"]
  by (simp add: ParseLocation_5th_Ave_and_Main ParseIntersection_and_Main)

text \<open>
  C3, as stated, fails: \<open>ParseInformalAddress\<close> joins the words of its own argument, the
  whole input, and not the remainder that \<open>ParseAddress\<close> holds in a local variable. For
  the input \<open>97201\<close> the standard parse has no number and no street, the remainder
  after the removal of the ZIP code is empty, and the informal street is \<open>97201\<close>.
\<close>

theorem C3_informal_street_counterexample:
  "ParseAddress example_tables ''97201'' =
     Some \<lparr>Number = [], Prefix = [], Street = [], Type = [], Suffix = [], SecUnitType = [],
           SecUnitNum = [], City = [], State = [], ZIP = ''97201'', Plus4 = []\<rparr>
   \<and> address_after_unit example_tables ''97201'' = Some []
   \<and> ParseInformalAddress example_tables ''97201'' =
     Some \<lparr>Number = [], Prefix = [], Street = ''97201'', Type = [], Suffix = [], SecUnitType = [],
           SecUnitNum = [], City = [], State = [], ZIP = ''97201'', Plus4 = []\<rparr>"
  by (simp add: all_eval example_eval)

text \<open>
  C3, amended. When the standard parse of an input has neither number nor street,
  \<open>ParseInformalAddress\<close> keeps its other fields and sets the street to the words of the
  whole input joined by single spaces, with no further tokenization and no
  normalization; the result is therefore not empty whenever the input holds a character
  that is not white space.
\<close>

theorem C3_informal_street_is_whole_input:
  "ParseAddress T address = Some result \<Longrightarrow> Number result = [] \<Longrightarrow> Street result = [] \<Longrightarrow>
     ParseInformalAddress T address =
       Some (if Fields address \<noteq> [] then result\<lparr>Street := Join (Fields address) '' ''\<rparr> else result)
     \<and> (Fields address \<noteq> [] \<longrightarrow>
          (\<exists>r. ParseInformalAddress T address = Some r \<and> Street r \<noteq> [] \<and> \<not> IsEmpty r))"
proof -
  assume a: "ParseAddress T address = Some result" "Number result = []" "Street result = []"
  then have 1: "ParseInformalAddress T address =
       Some (if Fields address \<noteq> [] then result\<lparr>Street := Join (Fields address) '' ''\<rparr> else result)"
    by (simp add: ParseInformalAddress_def Let_def)
  moreover have "Fields address \<noteq> [] \<longrightarrow>
          (\<exists>r. ParseInformalAddress T address = Some r \<and> Street r \<noteq> [] \<and> \<not> IsEmpty r)"
    using 1 Join_Fields_not_Nil [of address "'' ''"] by (simp add: IsEmpty_def)
  ultimately show ?thesis by blast
qed

text \<open>
  C3, witness: \<open>Portland, OR 97201\<close> has city, state and ZIP code but neither number nor
  street; its informal street is the whole input.
\<close>

theorem C3_informal_street_is_whole_input_witness:
  "ParseAddress example_tables ''Portland, OR 97201'' =
     Some \<lparr>Number = [], Prefix = [], Street = [], Type = [], Suffix = [], SecUnitType = [],
           SecUnitNum = [], City = ''Portland'', State = ''OR'', ZIP = ''97201'', Plus4 = []\<rparr>
   \<and> ParseInformalAddress example_tables ''Portland, OR 97201'' =
     Some \<lparr>Number = [], Prefix = [], Street = ''Portland, OR 97201'', Type = [], Suffix = [],
           SecUnitType = [], SecUnitNum = [], City = ''Portland'', State = ''OR'', ZIP = ''97201'',
           Plus4 = []\<rparr>"
  using C3_informal_street_is_whole_input [OF ParseAddress_Portland]
  by (simp add: ParseAddress_Portland Fields_Portland)

text \<open>
  C4. In \<open>ParseAddress\<close>, the last word left after the directional checks is removed
  from the words and becomes the type if and only if \<open>NormalizeStreetType\<close> of it is not
  empty and differs from the word itself. A last word equal to its own normalization is
  left in place and becomes part of the street name.
\<close>

theorem C4_type_taken_iff_normalization_differs:
  "words \<noteq> [] \<Longrightarrow>
     (snd (check_type T (result, words)) = butlast words \<longleftrightarrow>
        (NormalizeStreetType T (last words) \<noteq> [] \<and> NormalizeStreetType T (last words) \<noteq> last words))
     \<and> (NormalizeStreetType T (last words) \<noteq> [] \<and> NormalizeStreetType T (last words) \<noteq> last words \<longrightarrow>
          check_type T (result, words) = (result\<lparr>Type := NormalizeStreetType T (last words)\<rparr>, butlast words))
     \<and> (\<not> (NormalizeStreetType T (last words) \<noteq> [] \<and> NormalizeStreetType T (last words) \<noteq> last words) \<longrightarrow>
          check_type T (result, words) = (result, words))
     \<and> (NormalizeStreetType T (last words) = last words \<longrightarrow>
          street_name (check_type T (result, words)) = result\<lparr>Street := Join words '' ''\<rparr>)
     \<and> (NormalizeStreetType T (last words) \<noteq> [] \<and> NormalizeStreetType T (last words) \<noteq> last words \<longrightarrow>
          butlast words \<noteq> [] \<longrightarrow>
          street_name (check_type T (result, words)) =
            result\<lparr>Type := NormalizeStreetType T (last words), Street := Join (butlast words) '' ''\<rparr>)"
proof -
  assume ne: "words \<noteq> []"
  then have "butlast words \<noteq> words"
    by (metis append_butlast_last_id append_self_conv not_Cons_self)
  with ne show ?thesis
    by (simp add: check_type_def street_name_def Let_def)
qed

text \<open>
  C4, witness: with the example tables \<open>hwy\<close> is its own normalization and stays in the
  street name, \<open>Hwy\<close> normalizes to \<open>hwy\<close> and is taken as the type; so \<open>123 Main hwy\<close>
  has the street \<open>Main Hwy\<close> and no type, \<open>123 Main Hwy\<close> the street \<open>Main\<close> and the
  type \<open>hwy\<close>.
\<close>

theorem C4_type_taken_iff_normalization_differs_witness:
  "NormalizeStreetType example_tables ''hwy'' = ''hwy''
   \<and> check_type example_tables (empty_address, [''Main'', ''hwy'']) = (empty_address, [''Main'', ''hwy''])
   \<and> street_name (check_type example_tables (empty_address, [''Main'', ''hwy'']))
        = empty_address\<lparr>Street := ''Main hwy''\<rparr>
   \<and> NormalizeStreetType example_tables ''Hwy'' = ''hwy''
   \<and> check_type example_tables (empty_address, [''Main'', ''Hwy''])
        = (empty_address\<lparr>Type := ''hwy''\<rparr>, [''Main''])
   \<and> ParseAddress example_tables ''123 Main hwy'' =
        Some \<lparr>Number = ''123'', Prefix = [], Street = ''Main Hwy'', Type = [], Suffix = [],
              SecUnitType = [], SecUnitNum = [], City = [], State = [], ZIP = [], Plus4 = []\<rparr>
   \<and> ParseAddress example_tables ''123 Main Hwy'' =
        Some \<lparr>Number = ''123'', Prefix = [], Street = ''Main'', Type = ''hwy'', Suffix = [],
              SecUnitType = [], SecUnitNum = [], City = [], State = [], ZIP = [], Plus4 = []\<rparr>"
proof -
  have p: "ParseAddress example_tables ''123 Main hwy'' =
        Some \<lparr>Number = ''123'', Prefix = [], Street = ''Main Hwy'', Type = [], Suffix = [],
              SecUnitType = [], SecUnitNum = [], City = [], State = [], ZIP = [], Plus4 = []\<rparr>"
    by (simp add: all_eval example_eval)
  have q: "ParseAddress example_tables ''123 Main Hwy'' =
        Some \<lparr>Number = ''123'', Prefix = [], Street = ''Main'', Type = ''hwy'', Suffix = [],
              SecUnitType = [], SecUnitNum = [], City = [], State = [], ZIP = [], Plus4 = []\<rparr>"
    by (simp add: all_eval example_eval)
  have a: "NormalizeStreetType example_tables ''hwy'' = ''hwy''"
    by (simp add: string_eval example_eval char_eval)
  have b: "NormalizeStreetType example_tables ''Hwy'' = ''hwy''"
    by (simp add: string_eval example_eval char_eval)
  have 1: "check_type example_tables (empty_address, [''Main'', ''hwy'']) = (empty_address, [''Main'', ''hwy''])
    \<and> street_name (check_type example_tables (empty_address, [''Main'', ''hwy'']))
        = empty_address\<lparr>Street := ''Main hwy''\<rparr>"
    using C4_type_taken_iff_normalization_differs [of "[''Main'', ''hwy'']" example_tables empty_address] a
    by (simp add: street_name_def)
  have 2: "check_type example_tables (empty_address, [''Main'', ''Hwy''])
        = (empty_address\<lparr>Type := ''hwy''\<rparr>, [''Main''])"
    using C4_type_taken_iff_normalization_differs [of "[''Main'', ''Hwy'']" example_tables empty_address] b
    by simp
  from a b 1 2 p q show ?thesis by blast
qed

text \<open>
  C5, as stated, fails at the empty input: it is within the length bound, has no NUL byte
  and is valid UTF-8, and \<open>ParseLocation\<close> returns the error \<open>ErrInputEmpty\<close> for it.
\<close>

theorem C5_empty_input_counterexample:
  "ValidString [] \<and> length ([] :: string) \<le> MaxInputLength \<and> CHR 0x00 \<notin> set []
   \<and> ParseLocation example_tables [] = Some (Inl ErrInputEmpty)"
  by (simp add: ParseLocation_guard ValidateInput_def ValidString_def)

text \<open>
  C5, amended. For every input that is not empty, is valid UTF-8, has at most 10000 bytes
  and no NUL byte, \<open>ParseLocation\<close> returns a result: it returns no error and no index
  of a decomposition stage is out of range.
\<close>

theorem C5_accepted_input_gives_result:
  "input \<noteq> [] \<Longrightarrow> ValidString input \<Longrightarrow> length input \<le> MaxInputLength \<Longrightarrow>
   CHR 0x00 \<notin> set input \<Longrightarrow> \<exists>r. ParseLocation T input = Some (Inr r)"
  by (rule ParseLocation_accepted) (simp add: ValidateInput_None)

text \<open>
  C5, witness: \<open>123 Main St\<close> meets the four conditions and gives a result.
\<close>

theorem C5_accepted_input_gives_result_witness:
  "''123 Main St'' \<noteq> [] \<and> ValidString ''123 Main St''
   \<and> length ''123 Main St'' \<le> MaxInputLength \<and> CHR 0x00 \<notin> set ''123 Main St''
   \<and> (\<exists>r. ParseLocation example_tables ''123 Main St'' = Some (Inr r))"
proof -
  have v: "ValidString ''123 Main St''" by (simp add: string_eval)
  have l: "length ''123 Main St'' \<le> MaxInputLength" by (simp add: MaxInputLength_def)
  have n: "CHR 0x00 \<notin> set ''123 Main St''" by simp
  from C5_accepted_input_gives_result [OF _ v l n, of example_tables] v l n
  show ?thesis by simp
qed

text \<open>
  C6. Whenever \<open>ParseIntersection\<close> returns a result, its two types are both empty or
  both not empty: a type that the decomposition left empty on one side only is copied
  from the other side, and two types that were found are kept.
\<close>

theorem C6_types_empty_together:
  "ParseIntersection T address = Some (Some r) \<Longrightarrow>
     (Type1 r = [] \<longleftrightarrow> Type2 r = [])
     \<and> (\<exists>r0. intersection_fields T address = Some (Some r0)
           \<and> (Type1 r0 = [] \<and> Type2 r0 \<noteq> [] \<longrightarrow> Type1 r = Type2 r0 \<and> Type2 r = Type2 r0)
           \<and> (Type2 r0 = [] \<and> Type1 r0 \<noteq> [] \<longrightarrow> Type2 r = Type1 r0 \<and> Type1 r = Type1 r0)
           \<and> (Type1 r0 \<noteq> [] \<and> Type2 r0 \<noteq> [] \<longrightarrow> Type1 r = Type1 r0 \<and> Type2 r = Type2 r0))"
proof -
  assume "ParseIntersection T address = Some (Some r)"
  then obtain r0 where r0: "intersection_fields T address = Some (Some r0)" "r = common_type r0"
    by (auto simp: ParseIntersection_def split: option.splits)
  from r0(2) have "(Type1 r = [] \<longleftrightarrow> Type2 r = [])"
    by (auto simp: common_type_def)
  moreover from r0(2) have
    "(Type1 r0 = [] \<and> Type2 r0 \<noteq> [] \<longrightarrow> Type1 r = Type2 r0 \<and> Type2 r = Type2 r0)"
    "(Type2 r0 = [] \<and> Type1 r0 \<noteq> [] \<longrightarrow> Type2 r = Type1 r0 \<and> Type1 r = Type1 r0)"
    "(Type1 r0 \<noteq> [] \<and> Type2 r0 \<noteq> [] \<longrightarrow> Type1 r = Type1 r0 \<and> Type2 r = Type2 r0)"
    by (simp_all add: common_type_def)
  ultimately show ?thesis using r0(1) by blast
qed

text \<open>
  C6, witness: for \<open>5th Ave and Main\<close> the decomposition finds the type \<open>ave\<close> on the
  first street only, and the result has it on both.
\<close>

theorem C6_types_empty_together_witness:
  "ParseIntersection example_tables ''5th Ave and Main'' =
     Some (Some \<lparr>Prefix1 = [], Street1 = ''5th'', Type1 = ''ave'', Suffix1 = [], Prefix2 = [],
             Street2 = ''Main'', Type2 = ''ave'', Suffix2 = [], CityX = [], StateX = [], ZIPX = []\<rparr>)
   \<and> intersection_fields example_tables ''5th Ave and Main'' =
     Some (Some \<lparr>Prefix1 = [], Street1 = ''5th'', Type1 = ''ave'', Suffix1 = [], Prefix2 = [],
             Street2 = ''Main'', Type2 = [], Suffix2 = [], CityX = [], StateX = [], ZIPX = []\<rparr>)"
proof -
  have f: "intersection_fields example_tables ''5th Ave and Main'' =
     Some (Some \<lparr>Prefix1 = [], Street1 = ''5th'', Type1 = ''ave'', Suffix1 = [], Prefix2 = [],
             Street2 = ''Main'', Type2 = [], Suffix2 = [], CityX = [], StateX = [], ZIPX = []\<rparr>)"
    by (simp add: all_eval example_eval)
  then obtain r where r: "ParseIntersection example_tables ''5th Ave and Main'' = Some (Some r)"
    by (simp add: ParseIntersection_def)
  from C6_types_empty_together [OF r] f have "Type1 r = ''ave''" "Type2 r = ''ave''"
    by auto
  with r f show ?thesis
    by (simp add: ParseIntersection_def common_type_def)
qed

text \<open>
  C7. \<open>1005 N Gravenstein Hwy Sebastopol CA 95472\<close> is parsed as an address with number
  1005, prefix N, street Gravenstein, type hwy, city Sebastopol, state CA and ZIP code
  95472, for all tables in which \<open>CA\<close> is the state \<open>CA\<close>, \<open>hwy\<close> is a key of
  \<open>StreetType\<close>, \<open>N\<close> is the directional \<open>N\<close>, \<open>Hwy\<close> is no directional and the street
  type of \<open>Hwy\<close> is \<open>hwy\<close>.
\<close>

theorem C7_gravenstein:
  assumes "NormalizeState T ''CA'' = ''CA''"
    and "StreetType T ''hwy'' \<noteq> None"
    and "NormalizeDirectional T ''N'' = ''N''"
    and "NormalizeDirectional T ''Hwy'' = []"
    and "NormalizeStreetType T ''Hwy'' = ''hwy''"
  shows "ParseLocation T ''1005 N Gravenstein Hwy Sebastopol CA 95472'' =
     Some (Inr \<lparr>Kind = ''address'',
       Address = Some \<lparr>Number = ''1005'', Prefix = ''N'', Street = ''Gravenstein'', Type = ''hwy'',
         Suffix = [], SecUnitType = [], SecUnitNum = [], City = ''Sebastopol'', State = ''CA'',
         ZIP = ''95472'', Plus4 = []\<rparr>,
       Intersection = None\<rparr>)"
proof -
  have s: "ValidateAndSanitize ''1005 N Gravenstein Hwy Sebastopol CA 95472''
             = Inr ''1005 N Gravenstein Hwy Sebastopol CA 95472''"
    by (simp add: all_eval)
  have c: "\<not> MatchString patterns_corner ''1005 N Gravenstein Hwy Sebastopol CA 95472''"
    by (simp add: all_eval)
  have p: "\<not> MatchString patterns_poBox ''1005 N Gravenstein Hwy Sebastopol CA 95472''"
    by (simp add: all_eval)
  have a: "ParseAddress T ''1005 N Gravenstein Hwy Sebastopol CA 95472'' =
     Some \<lparr>Number = ''1005'', Prefix = ''N'', Street = ''Gravenstein'', Type = ''hwy'',
         Suffix = [], SecUnitType = [], SecUnitNum = [], City = ''Sebastopol'', State = ''CA'',
         ZIP = ''95472'', Plus4 = []\<rparr>"
    using assms by (simp add: all_eval)
  show ?thesis
    by (simp add: ParseLocation_def s route_def try_intersection_def c try_poBox_def p a
        try_address_def IsEmpty_def)
qed

text \<open>
  C7, witness: the example tables meet the five conditions.
\<close>

theorem C7_gravenstein_witness:
  "NormalizeState example_tables ''CA'' = ''CA''
   \<and> StreetType example_tables ''hwy'' \<noteq> None
   \<and> NormalizeDirectional example_tables ''N'' = ''N''
   \<and> NormalizeDirectional example_tables ''Hwy'' = []
   \<and> NormalizeStreetType example_tables ''Hwy'' = ''hwy''
   \<and> ParseLocation example_tables ''1005 N Gravenstein Hwy Sebastopol CA 95472'' =
     Some (Inr \<lparr>Kind = ''address'',
       Address = Some \<lparr>Number = ''1005'', Prefix = ''N'', Street = ''Gravenstein'', Type = ''hwy'',
         Suffix = [], SecUnitType = [], SecUnitNum = [], City = ''Sebastopol'', State = ''CA'',
         ZIP = ''95472'', Plus4 = []\<rparr>,
       Intersection = None\<rparr>)"
proof -
  have h: "NormalizeState example_tables ''CA'' = ''CA''"
    "StreetType example_tables ''hwy'' \<noteq> None"
    "NormalizeDirectional example_tables ''N'' = ''N''"
    "NormalizeDirectional example_tables ''Hwy'' = []"
    "NormalizeStreetType example_tables ''Hwy'' = ''hwy''"
    by (simp_all add: string_eval example_eval char_eval)
  from C7_gravenstein [OF h] h show ?thesis by simp
qed

text \<open>
  C8 does not hold of the code. The pattern \<open>corner\<close> asks for a word boundary on both
  sides of the marker, and there is none between a space and \<open>&\<close>: the pattern does not
  match \<open>5th Ave & Main\<close>, \<open>ParseIntersection\<close> returns nil for it (as for the input
  \<open>5th Ave & Main St\<close> of the repository's own test), and \<open>ParseLocation\<close> returns a
  result of another type, with the example tables an address whose street is the whole
  input.
\<close>

theorem C8_ampersand_between_spaces_is_no_marker:
  "\<not> MatchString patterns_corner ''5th Ave & Main''
   \<and> ParseIntersection T ''5th Ave & Main'' = Some None
   \<and> ParseIntersection T ''5th Ave & Main St'' = Some None
   \<and> (\<exists>r. ParseLocation T ''5th Ave & Main'' = Some (Inr r) \<and> Kind r \<noteq> ''intersection'')
   \<and> ParseLocation example_tables ''5th Ave & Main'' =
       Some (Inr \<lparr>Kind = ''address'',
         Address = Some \<lparr>Number = [], Prefix = [], Street = ''5th Ave & Main'', Type = [],
           Suffix = [], SecUnitType = [], SecUnitNum = [], City = [], State = [], ZIP = [],
           Plus4 = []\<rparr>,
         Intersection = None\<rparr>)"
proof -
  have c: "\<not> MatchString patterns_corner ''5th Ave & Main''"
    by (simp add: all_eval)
  have i: "ParseIntersection T ''5th Ave & Main'' = Some None"
    by (simp add: all_eval)
  have j: "ParseIntersection T ''5th Ave & Main St'' = Some None"
    by (simp add: all_eval)
  have v: "ValidateInput ''5th Ave & Main'' = None"
    by (simp add: all_eval)
  have s: "SanitizeInput ''5th Ave & Main'' = ''5th Ave & Main''"
    by (simp add: all_eval)
  from ParseLocation_accepted [OF v, of T]
  obtain r where r: "ParseLocation T ''5th Ave & Main'' = Some (Inr r)" by blast
  with v s have rt: "route T ''5th Ave & Main'' = Some r"
    by (auto simp: ParseLocation_guard)
  have ti: "try_intersection T ''5th Ave & Main'' = Some None"
    by (simp add: try_intersection_def c)
  have "Kind r \<noteq> ''intersection''"
  proof
    assume "Kind r = ''intersection''"
    from route_intersection [OF rt this] ti show False by simp
  qed
  with r have e: "\<exists>r. ParseLocation T ''5th Ave & Main'' = Some (Inr r) \<and> Kind r \<noteq> ''intersection''"
    by blast
  have x: "ParseLocation example_tables ''5th Ave & Main'' =
       Some (Inr \<lparr>Kind = ''address'',
         Address = Some \<lparr>Number = [], Prefix = [], Street = ''5th Ave & Main'', Type = [],
           Suffix = [], SecUnitType = [], SecUnitNum = [], City = [], State = [], ZIP = [],
           Plus4 = []\<rparr>,
         Intersection = None\<rparr>)"
    by (simp add: all_eval example_eval)
  from c i j e x show ?thesis by blast
qed

text \<open>
  C9. The input of three spaces is not empty, so the guard accepts it; sanitizing it gives
  the empty string, and \<open>ParseLocation\<close> returns a nil error with a result of type
  \<open>none\<close>: the test for emptiness is made on the raw input, before white space is
  collapsed.
\<close>

theorem C9_whitespace_only_gives_none:
  "ValidateInput ''   '' = None
   \<and> SanitizeInput ''   '' = []
   \<and> ParseLocation T ''   '' = Some (Inr \<lparr>Kind = ''none'', Address = None, Intersection = None\<rparr>)"
proof -
  have v: "ValidateInput ''   '' = None"
    by (simp add: string_eval parser_eval)
  have s: "SanitizeInput ''   '' = []"
    by (simp add: string_eval parser_eval)
  from v s have "ParseLocation T ''   '' = map_option Inr (route T [])"
    by (simp add: ParseLocation_def ValidateAndSanitize_def)
  with v s show ?thesis
    by (simp add: route_empty)
qed

text \<open>
  C10. \<open>ValidateInput\<close> accepts the input of 499 letters followed by the two bytes of
  U+00E9: it is valid UTF-8, 501 bytes long and free of NUL. \<open>SanitizeInput\<close> cuts it at
  byte 500, in the middle of the last character, and what it returns is not valid UTF-8.
\<close>

theorem C10_truncation_splits_a_character:
  "ValidateInput long_input = None
   \<and> ValidString long_input
   \<and> SanitizeInput long_input = replicate 499 (CHR ''a'') @ [CHR 0xC3]
   \<and> \<not> ValidString (SanitizeInput long_input)"
proof -
  have "ValidString long_input"
    by (simp add: ValidString_def runes_long_input RuneError_def list_all_iff)
  then show ?thesis
    by (simp add: ValidateInput_long_input SanitizeInput_long_input cut_rune_invalid)
qed

end
